theory Spec2Isabelle
  imports Complex_Main "HOL-Library.Multiset"
begin

section \<open>Enumerations, targets and errors\<close>

text \<open>
  The simulator is written in Python: integers are unbounded (\<open>int\<close>), every
  \<^verbatim>\<open>raise\<close> and every failing \<^verbatim>\<open>assert\<close> is a value of \<open>error\<close>, and the
  immutable game state is a nest of records. Getters of the source
  (\<^verbatim>\<open>get_hp()\<close>, \<^verbatim>\<open>get_characters()\<close>, ...) are the record fields of the same
  name; a builder call \<^verbatim>\<open>x.factory().f(v).build()\<close> is the record update of the
  one field \<open>f\<close>.
\<close>

datatype error =
    AssertionError
  | NotImplementedError
  | NotImplementedYet     \<comment> \<open>\<^verbatim>\<open>raise Exception("Not implemented yet")\<close>\<close>
  | JustNone              \<comment> \<open>\<^verbatim>\<open>just(None)\<close>: "Trying to just None"\<close>
  | ZeroDivisionError
  | OverflowError
  | ValueError

text \<open>Modelled from the spec: the player identifiers (\<^verbatim>\<open>GameState.Pid\<close>, later
  \<^verbatim>\<open>state/enums.py\<close>) are not among the sources; the glossary names P1 and P2.\<close>

datatype pid = P1 | P2

fun other_pid :: "pid \<Rightarrow> pid" where
  "other_pid P1 = P2"
| "other_pid P2 = P1"

text \<open>\<^verbatim>\<open>Zone\<close>: the members of \<^verbatim>\<open>event/effect.py\<close> (the later sources spell the
  first one \<^verbatim>\<open>CHARACTERS\<close>), and the zones of combat and hidden statuses that the
  specification names for the later sources.\<close>

datatype zone = CHARACTERS | SUMMONS | SUPPORTS | HAND | EFFECT | COMBAT_STATUSES | HIDDEN_STATUSES

text \<open>\<^verbatim>\<open>DynamicCharacterTarget\<close> of \<^verbatim>\<open>event/effect.py\<close>\<close>

datatype dynamic_character_target =
  SELF_SELF | SELF_ACTIVE | SELF_OFF_FIELD | SELF_ALL | SELF_ABS | OPPO_ACTIVE | OPPO_OFF_FIELD

text \<open>Modelled from the spec: the enumeration \<^verbatim>\<open>Element\<close> (\<^verbatim>\<open>element.py\<close>) is not
  among the sources; its members are the damage elements listed in
  \<^verbatim>\<open>_DAMAGE_ELEMENTS\<close> and the two dice-only elements of section 4.1.\<close>

datatype element =
  PYRO | HYDRO | ANEMO | ELECTRO | DENDRO | CRYO | GEO | PHYSICAL | PIERCING | OMNI | ANY

text \<open>\<^verbatim>\<open>StaticTarget\<close> of \<^verbatim>\<open>event/effect.py\<close>\<close>

record static_target =
  st_pid :: pid
  st_zone :: zone
  st_id :: int

section \<open>Cards\<close>

text \<open>
  \<^verbatim>\<open>Cards\<close> (\<^verbatim>\<open>card/cards.py\<close>) wraps a dictionary from card kinds to integer
  counts: an association list whose order is immaterial and whose keys are unique.
\<close>

text \<open>Modelled from the spec: the card classes (\<^verbatim>\<open>card/card.py\<close>) are not among the
  sources; a card kind is a class of the catalogue, told apart by a number, and
  \<^verbatim>\<open>OmniCard\<close> is the placeholder kind that \<^verbatim>\<open>Cards\<close> names.\<close>

datatype card = OmniCard | Card nat

type_synonym cards = "(card \<times> int) list"

text \<open>\<^verbatim>\<open>Cards.__getitem__\<close>: a missing kind reads as 0.\<close>

definition cards_get :: "cards \<Rightarrow> card \<Rightarrow> int" where
  "cards_get c k = (case map_of c k of None \<Rightarrow> 0 | Some n \<Rightarrow> n)"

text \<open>Modelled from the spec: the dictionary class \<^verbatim>\<open>HashableDict\<close>
  (\<^verbatim>\<open>helper/hashable_dict.py\<close>) is not among the sources; the keys of a sum or
  difference are the keys of either operand.\<close>

definition dict_keys_union :: "cards \<Rightarrow> cards \<Rightarrow> card list" where
  "dict_keys_union a b = remdups (map fst a @ map fst b)"

text \<open>Modelled from the spec: \<open>+\<close> of \<^verbatim>\<open>HashableDict\<close>, not among the sources, under
  \<^verbatim>\<open>Cards.__add__\<close>: "addition as multisets", the counts added key by key.\<close>

definition cards_add :: "cards \<Rightarrow> cards \<Rightarrow> cards" where
  "cards_add a b = map (\<lambda>k. (k, cards_get a k + cards_get b k)) (dict_keys_union a b)"

text \<open>Modelled from the spec: \<open>-\<close> of \<^verbatim>\<open>HashableDict\<close>, not among the sources, under
  \<^verbatim>\<open>Cards.__sub__\<close>: "subtraction as multisets", the counts subtracted key by key;
  a count may become negative, which \<^verbatim>\<open>Cards.is_legal\<close> tests for.\<close>

definition cards_sub :: "cards \<Rightarrow> cards \<Rightarrow> cards" where
  "cards_sub a b = map (\<lambda>k. (k, cards_get a k - cards_get b k)) (dict_keys_union a b)"

definition from_empty :: cards where
  "from_empty = []"

definition num_cards :: "cards \<Rightarrow> int" where
  "num_cards c = sum_list (map snd c)"

definition is_legal :: "cards \<Rightarrow> bool" where
  "is_legal c = list_all (\<lambda>kv. snd kv \<ge> 0) c"

text \<open>A Python dictionary holds each key once.\<close>

definition dict_ok :: "cards \<Rightarrow> bool" where
  "dict_ok c = distinct (map fst c)"

definition contains :: "cards \<Rightarrow> card \<Rightarrow> bool" where
  "contains c k = (cards_get c k > 0 \<or> cards_get c OmniCard > 0)"

definition remove :: "cards \<Rightarrow> card \<Rightarrow> error + cards" where
  "remove c k =
     (if cards_get c k \<le> 0 then
        (if cards_get c OmniCard > 0 then Inr (cards_sub c [(OmniCard, 1)])
         else Inl AssertionError)
      else Inr (cards_sub c [(k, 1)]))"

section \<open>Characters, players and the game state\<close>

text \<open>Modelled from the spec: the class \<^verbatim>\<open>Character\<close> (\<^verbatim>\<open>character/character.py\<close>)
  is not among the sources, only its callers are. Its fields are those of section 3
  of the specification that its callers read or write: an id, hp and max hp,
  energy and max energy. The sources store no alive flag.\<close>

record character =
  get_id :: int
  get_hp :: int
  get_max_hp :: int
  get_energy :: int
  get_max_energy :: int


text \<open>Modelled from the spec: the class \<^verbatim>\<open>Characters\<close>
  (\<^verbatim>\<open>character/characters.py\<close>) is not among the sources; by section 3 it is the
  ordered list of characters and the optional id of the active one.\<close>

record characters =
  get_characters_list :: "character list"
  get_active_character_id :: "int option"

text \<open>Modelled from the spec: lookup in \<^verbatim>\<open>Characters\<close>, not among the sources, by
  character id, the first character of that id.\<close>

definition get_character :: "characters \<Rightarrow> int \<Rightarrow> character option" where
  "get_character cs i = find (\<lambda>c. get_id c = i) (get_characters_list cs)"

text \<open>Modelled from the spec: \<^verbatim>\<open>Characters.get_active_character()\<close>, not among the
  sources: the character of the active id, \<open>None\<close> without one.\<close>

definition get_active_character :: "characters \<Rightarrow> character option" where
  "get_active_character cs =
     (case get_active_character_id cs of None \<Rightarrow> None | Some i \<Rightarrow> get_character cs i)"

text \<open>Modelled from the spec: replacement in \<^verbatim>\<open>Characters\<close>, not among the sources,
  of the character that has the id of the new one.\<close>

fun replace_character :: "character \<Rightarrow> character list \<Rightarrow> character list" where
  "replace_character c [] = []"
| "replace_character c (x # xs) =
     (if get_id x = get_id c then c # xs else x # replace_character c xs)"

text \<open>Modelled from the spec: \<^verbatim>\<open>characters.factory().character(c).build()\<close>, not
  among the sources.\<close>

definition factory_character :: "characters \<Rightarrow> character \<Rightarrow> characters" where
  "factory_character cs c =
     cs\<lparr>get_characters_list := replace_character c (get_characters_list cs)\<rparr>"

text \<open>Modelled from the spec: the enumeration \<^verbatim>\<open>ACT\<close> of a player's phase
  (\<^verbatim>\<open>state/enums.py\<close>) is not among the sources; the members are those the card
  select phase names.\<close>

datatype act = PASSIVE_WAIT_PHASE | ACTION_PHASE | END_PHASE

text \<open>Modelled from the spec: the class \<^verbatim>\<open>PlayerState\<close> (\<^verbatim>\<open>state/player_state.py\<close>)
  is not among the sources; of the fields of section 3, those its callers here read
  or write: the phase, the characters, the hand, the deck and the redraw chances.\<close>

record player_state =
  get_phase :: act
  get_characters :: characters
  get_hand_cards :: cards
  get_deck_cards :: cards
  get_card_redraw_chances :: int

text \<open>Modelled from the spec: the class \<^verbatim>\<open>GameState\<close> (\<^verbatim>\<open>state/game_state.py\<close>) is
  not among the sources; of the fields of section 3, the two players.\<close>

record game_state =
  get_player1 :: player_state
  get_player2 :: player_state

text \<open>Modelled from the spec: \<^verbatim>\<open>GameState.get_player(pid)\<close>, not among the
  sources.\<close>

fun get_player :: "game_state \<Rightarrow> pid \<Rightarrow> player_state" where
  "get_player gs P1 = get_player1 gs"
| "get_player gs P2 = get_player2 gs"

text \<open>Modelled from the spec: \<^verbatim>\<open>GameState.get_other_player(pid)\<close>, not among the
  sources.\<close>

definition get_other_player :: "game_state \<Rightarrow> pid \<Rightarrow> player_state" where
  "get_other_player gs p = get_player gs (other_pid p)"

text \<open>Modelled from the spec: \<^verbatim>\<open>game_state.factory().player(pid, p).build()\<close>, not
  among the sources.\<close>

fun factory_player :: "game_state \<Rightarrow> pid \<Rightarrow> player_state \<Rightarrow> game_state" where
  "factory_player gs P1 p = gs\<lparr>get_player1 := p\<rparr>"
| "factory_player gs P2 p = gs\<lparr>get_player2 := p\<rparr>"


text \<open>Modelled from the spec: \<^verbatim>\<open>GameState.get_target(target)\<close>, not among the
  sources: a static target identifies an addressable entity by player, zone and id;
  the result here is the character it names, \<open>None\<close> when it names no
  \<^verbatim>\<open>Character\<close>.\<close>

definition get_target :: "game_state \<Rightarrow> static_target \<Rightarrow> character option" where
  "get_target gs t =
     (if st_zone t = CHARACTERS
      then get_character (get_characters (get_player gs (st_pid t))) (st_id t)
      else None)"

text \<open>Modelled from the spec: \<^verbatim>\<open>PlayerState.just_get_active_character()\<close>, not
  among the sources: the active character, with \<^verbatim>\<open>just\<close> of
  \<^verbatim>\<open>helper/quality_of_life.py\<close> raising on \<open>None\<close>.\<close>

definition just_get_active_character :: "player_state \<Rightarrow> error + character" where
  "just_get_active_character p =
     (case get_active_character (get_characters p) of None \<Rightarrow> Inl JustNone | Some c \<Rightarrow> Inr c)"

text \<open>Every character of both players.\<close>

definition all_characters :: "game_state \<Rightarrow> character list" where
  "all_characters gs =
     get_characters_list (get_characters (get_player1 gs))
     @ get_characters_list (get_characters (get_player2 gs))"

section \<open>Effects of \<^verbatim>\<open>event/effect.py\<close>\<close>



record energy_recharge_effect =
  er_target :: static_target
  er_recharge :: int

text \<open>\<^verbatim>\<open>EnergyRechargeEffect.execute\<close>\<close>

definition EnergyRechargeEffect_execute :: "energy_recharge_effect \<Rightarrow> game_state \<Rightarrow> game_state" where
  "EnergyRechargeEffect_execute eff gs =
     (case get_target gs (er_target eff) of
        None \<Rightarrow> gs
      | Some character \<Rightarrow>
          let energy = min (get_energy character + er_recharge eff) (get_max_energy character) in
          if energy = get_energy character then gs
          else
            let character = character\<lparr>get_energy := energy\<rparr>;
                player = get_player gs (st_pid (er_target eff));
                characters = factory_character (get_characters player) character;
                player = player\<lparr>get_characters := characters\<rparr>
            in factory_player gs (st_pid (er_target eff)) player)"

text \<open>The energy invariant of the data model, over every character of both players.\<close>

definition energy_inv :: "game_state \<Rightarrow> bool" where
  "energy_inv gs =
     list_all (\<lambda>c. 0 \<le> get_energy c \<and> get_energy c \<le> get_max_energy c) (all_characters gs)"

section \<open>Random picks and the card select phase\<close>

text \<open>
  \<^verbatim>\<open>random.sample(keys, counts=values, k=num)\<close> draws \<open>num\<close> cards without
  replacement from the population in which every kind stands as often as its count.
  The random source is explicit: a list of numbers, the next one (taken modulo the
  size of what is left) choosing the position of the next card drawn. Every draw
  without replacement is the result for some list. The population is that of legal
  cards (no negative count); \<^verbatim>\<open>sample\<close> raises when asked for more than the
  population holds or for a negative number.
\<close>

definition population :: "cards \<Rightarrow> card list" where
  "population c = concat (map (\<lambda>kv. replicate (nat (snd kv)) (fst kv)) c)"

fun draw :: "'a list \<Rightarrow> nat \<Rightarrow> nat list \<Rightarrow> 'a list" where
  "draw pop 0 rs = []"
| "draw [] (Suc n) rs = []"
| "draw (x # pop) (Suc n) rs =
     (let j = (case rs of [] \<Rightarrow> 0 | r # _ \<Rightarrow> r) mod length (x # pop)
      in (x # pop) ! j # draw (take j (x # pop) @ drop (Suc j) (x # pop)) n (tl rs))"

definition sample :: "card list \<Rightarrow> int \<Rightarrow> nat list \<Rightarrow> error + card list" where
  "sample pop k rs =
     (if k < 0 \<or> int (length pop) < k then Inl ValueError else Inr (draw pop (nat k) rs))"

text \<open>\<^verbatim>\<open>dict(Counter(xs))\<close>\<close>

definition counter :: "card list \<Rightarrow> cards" where
  "counter xs = map (\<lambda>k. (k, int (count_list xs k))) (remdups xs)"

text \<open>\<^verbatim>\<open>Cards.pick_random\<close> (\<^verbatim>\<open>pick_random_cards\<close> to the card select phase)\<close>

definition pick_random :: "cards \<Rightarrow> int \<Rightarrow> nat list \<Rightarrow> error + (cards \<times> cards)" where
  "pick_random c num rs =
     (let num = min (num_cards c) num in
      if num = 0 then Inr (c, from_empty)
      else
        (case sample (population c) num rs of
           Inl e \<Rightarrow> Inl e
         | Inr picked \<Rightarrow>
             let picked_cards = counter picked
             in Inr (cards_sub c picked_cards, picked_cards)))"

text \<open>Modelled from the spec: the class \<^verbatim>\<open>CardSelectAction\<close> (\<^verbatim>\<open>action/action.py\<close>)
  is not among the sources; it carries the subset of the hand that the player
  selects, and its \<^verbatim>\<open>num_cards()\<close> counts that subset.\<close>

record card_select_action =
  selected_cards :: cards

text \<open>\<^verbatim>\<open>CardSelectPhase._handle_card_drawing\<close>\<close>

definition handle_card_drawing ::
  "game_state \<Rightarrow> pid \<Rightarrow> card_select_action \<Rightarrow> nat list \<Rightarrow> error + game_state" where
  "handle_card_drawing gs p action rs =
     (let player = get_player gs p in
      case pick_random (get_deck_cards player) (num_cards (selected_cards action)) rs of
        Inl e \<Rightarrow> Inl e
      | Inr (new_deck, new_cards) \<Rightarrow>
          let new_deck = cards_add new_deck (selected_cards action);
              new_hand = cards_sub (get_hand_cards player) (selected_cards action);
              new_hand = cards_add new_hand new_cards;
              reducedChances = get_card_redraw_chances player - 1;
              phase = (if reducedChances > 0 then get_phase player else END_PHASE)
          in Inr (factory_player gs p
                    (player\<lparr>get_phase := phase,
                            get_card_redraw_chances := reducedChances,
                            get_deck_cards := new_deck,
                            get_hand_cards := new_hand\<rparr>)))"

text \<open>A selection drawn from a hand: of every kind at least none and at most what
  the hand holds.\<close>

definition selected_from :: "cards \<Rightarrow> cards \<Rightarrow> bool" where
  "selected_from sel hand =
     (is_legal sel \<and> list_all (\<lambda>kv. snd kv \<le> cards_get hand (fst kv)) sel)"

section \<open>Dice\<close>

text \<open>Modelled from the spec: the dice classes (\<^verbatim>\<open>dices.py\<close>) are not among the
  sources, only their tests are. By section 4.1 of the specification a dice pool is
  a non-negative multiset keyed by element; a requirement has the same shape.\<close>

type_synonym dices = "element multiset"

text \<open>Modelled from the spec: the elements of real colour, among which section 4.1
  sets \<open>OMNI\<close> and \<open>ANY\<close> apart; the dice classes are not among the sources.\<close>

definition pure_elems :: "element list" where
  "pure_elems = [PYRO, HYDRO, ANEMO, ELECTRO, DENDRO, CRYO, GEO]"

text \<open>Modelled from the spec: addition of dice, "as multisets"; the dice classes are
  not among the sources.\<close>

definition dices_add :: "dices \<Rightarrow> dices \<Rightarrow> dices" where
  "dices_add a b = a + b"

text \<open>Modelled from the spec: subtraction of dice, "as multisets"; the dice classes
  are not among the sources.\<close>

definition dices_sub :: "dices \<Rightarrow> dices \<Rightarrow> dices" where
  "dices_sub a b = a - b"

text \<open>Modelled from the spec: \<^verbatim>\<open>num()\<close>, the number of dice; the dice classes are
  not among the sources.\<close>

definition num_dices :: "dices \<Rightarrow> nat" where
  "num_dices d = size d"

text \<open>Modelled from the spec: \<^verbatim>\<open>just_satisfy\<close> of the dice classes, not among the
  sources, after clauses (a) to (d) of section 4.1: every element's shortfall in
  the payment is made up by its \<open>OMNI\<close> dice; the \<open>OMNI\<close> requirement is met by the
  \<open>OMNI\<close> dice left over together with the spare dice of one element; the totals
  are equal, so that what is left equals the \<open>ANY\<close> requirement.\<close>

definition just_satisfy :: "dices \<Rightarrow> dices \<Rightarrow> bool" where
  "just_satisfy payment requirement =
     (let omni_needed = sum_list (map (\<lambda>e. count requirement e - count payment e) pure_elems);
          omni_remained = count payment OMNI - omni_needed;
          spare = map (\<lambda>e. count payment e - count requirement e) pure_elems
      in num_dices payment = num_dices requirement
         \<and> omni_needed \<le> count payment OMNI
         \<and> (count requirement OMNI = 0
            \<or> list_ex (\<lambda>n. count requirement OMNI \<le> n + omni_remained) spare))"

section \<open>Statuses of \<^verbatim>\<open>status/status.py\<close>\<close>

text \<open>
  A status class is described by its class-level constants; an instance carries its
  dataclass fields. \<^verbatim>\<open>_UsageStatus\<close> has the one field \<^verbatim>\<open>usages\<close>; subclasses that
  add fields extend the record, and \<^verbatim>\<open>replace(s, usages=n)\<close> is the update of that
  field. The \<^verbatim>\<open>isinstance\<close> tests of the source read the family of the class.
\<close>

datatype status_family =
  PersonalStatus | CombatStatus | Summon | PlayerHiddenStatus | Support | PlainStatus

text \<open>\<^verbatim>\<open>Preprocessables\<close> of \<^verbatim>\<open>status/enums.py\<close>\<close>

datatype preprocessables =
    SWAP | SWAP_COST_ANY | SWAP_COST_ELEM | SWAP_COST_OMNI
  | SKILL | SKILL_COST_ANY | SKILL_COST_ELEM | SKILL_COST_OMNI
  | CARD1 | CARD2 | CARD1_COST_ANY | CARD2_COST_ANY | CARD1_COST_ELEM | CARD2_COST_ELEM
  | CARD1_COST_OMNI | CARD2_COST_OMNI
  | DMG_ELEMENT | DMG_REACTION | DMG_AMOUNT_PLUS | DMG_AMOUNT_MINUS | DMG_AMOUNT_MUL
  | ROLL_CHANCES | ROLL_DICE_INIT

text \<open>Modelled from the spec: the class \<^verbatim>\<open>DamageType\<close> (\<^verbatim>\<open>effect/structs.py\<close>) is
  not among the sources; it carries the flags that the sources pass to its
  constructor.\<close>

record damage_type =
  dt_elemental_skill :: bool
  dt_elemental_burst :: bool
  dt_status :: bool
  dt_summon :: bool
  dt_no_boost :: bool

text \<open>Modelled from the spec: \<^verbatim>\<open>DamageType.can_boost()\<close>, not among the sources: the
  negation of \<^verbatim>\<open>no_boost\<close>, the flag the sources set on damage that no status may
  raise.\<close>

definition can_boost :: "damage_type \<Rightarrow> bool" where
  "can_boost t = (\<not> dt_no_boost t)"

text \<open>Modelled from the spec: the class \<^verbatim>\<open>SpecificDamageEffect\<close>
  (\<^verbatim>\<open>effect/effect.py\<close> of the later sources) is not among the sources; it carries
  the fields of the damage event of section 4.4 that the statuses read: source,
  target, element, damage and damage type.\<close>

record specific_damage_effect =
  sd_source :: static_target
  sd_target :: static_target
  sd_element :: element
  sd_damage :: int
  sd_damage_type :: damage_type

text \<open>The preprocessable events of \<^verbatim>\<open>event.py\<close>; the statuses below read the
  payload of \<^verbatim>\<open>DmgPEvent\<close> only, the other events are told apart by a number.\<close>

datatype pevent = DmgPEvent specific_damage_effect | OtherPEvent nat

text \<open>The class constants of \<^verbatim>\<open>_UsageStatus\<close>, and those a shield class adds: its
  family, \<^verbatim>\<open>SHIELD_AMOUNT\<close> and the hook \<^verbatim>\<open>_triggering_condition\<close> of
  \<^verbatim>\<open>FixedShieldStatus\<close> (\<open>True\<close> unless a subclass overrides it).\<close>

record usage_class =
  MAX_USAGES :: int
  AUTO_DESTROY :: bool

record shield_class = usage_class +
  family :: status_family
  SHIELD_AMOUNT :: int
  triggering_condition :: "game_state \<Rightarrow> static_target \<Rightarrow> specific_damage_effect \<Rightarrow> bool"

text \<open>\<^verbatim>\<open>BIG_INT\<close> of \<^verbatim>\<open>helper/quality_of_life.py\<close>, \<^verbatim>\<open>0x7fffffff\<close>\<close>

definition BIG_INT :: int where
  "BIG_INT = 2147483647"

record usage_status =
  usages :: int

subsection \<open>\<^verbatim>\<open>_UsageStatus\<close>\<close>

text \<open>\<^verbatim>\<open>_UsageStatus._update\<close>\<close>

definition UsageStatus_update_inner ::
  "'c usage_class_scheme \<Rightarrow> 'a usage_status_scheme \<Rightarrow> 'a usage_status_scheme
     \<Rightarrow> 'a usage_status_scheme option" where
  "UsageStatus_update_inner cls self other =
     (let max_usages = max (usages self) (max (usages other) (MAX_USAGES cls));
          new_usages = min (usages self + usages other) max_usages
      in Some (other\<lparr>usages := new_usages\<rparr>))"

text \<open>\<^verbatim>\<open>_UsageStatus._post_update\<close>, ending in \<^verbatim>\<open>Status._post_update\<close>, the identity.\<close>

definition UsageStatus_post_update ::
  "'c usage_class_scheme \<Rightarrow> 'a usage_status_scheme option \<Rightarrow> 'a usage_status_scheme option" where
  "UsageStatus_post_update cls new_self =
     (case new_self of
        None \<Rightarrow> None
      | Some s \<Rightarrow>
          if AUTO_DESTROY cls \<and> usages s \<le> 0 then None
          else if usages s < 0 then Some (s\<lparr>usages := 0\<rparr>)
          else Some s)"

text \<open>\<^verbatim>\<open>Status.update\<close> on a usage status\<close>

definition UsageStatus_update ::
  "'c usage_class_scheme \<Rightarrow> 'a usage_status_scheme \<Rightarrow> 'a usage_status_scheme
     \<Rightarrow> 'a usage_status_scheme option" where
  "UsageStatus_update cls self other =
     UsageStatus_post_update cls (UsageStatus_update_inner cls self other)"

text \<open>\<^verbatim>\<open>_UsageStatus._post_preprocess\<close>, ending in \<^verbatim>\<open>Status._post_preprocess\<close>, the
  identity.\<close>

definition UsageStatus_post_preprocess ::
  "'c usage_class_scheme \<Rightarrow> pevent \<Rightarrow> 'a usage_status_scheme option
     \<Rightarrow> pevent \<times> 'a usage_status_scheme option" where
  "UsageStatus_post_preprocess cls new_item new_self =
     (case new_self of
        None \<Rightarrow> (new_item, None)
      | Some s \<Rightarrow>
          if AUTO_DESTROY cls \<and> usages s \<le> 0 then (new_item, None)
          else if usages s < 0 then (new_item, Some (s\<lparr>usages := 0\<rparr>))
          else (new_item, Some s))"

text \<open>\<^verbatim>\<open>class _UsageLivingStatus(_UsageStatus)\<close>: no auto-destroy, the maximum
  inherited.\<close>

definition UsageLivingStatus :: usage_class where
  "UsageLivingStatus = \<lparr>MAX_USAGES = BIG_INT, AUTO_DESTROY = False\<rparr>"

subsection \<open>Shields\<close>

text \<open>\<^verbatim>\<open>_ShieldStatus._is_target\<close>\<close>

definition is_target ::
  "shield_class \<Rightarrow> game_state \<Rightarrow> static_target \<Rightarrow> specific_damage_effect \<Rightarrow> error + bool" where
  "is_target cls gs status_source item =
     (if family cls = PersonalStatus then Inr (sd_target item = status_source)
      else if family cls = CombatStatus \<or> family cls = Summon then
        (case just_get_active_character (get_player gs (st_pid status_source)) of
           Inl e \<Rightarrow> Inl e
         | Inr c \<Rightarrow>
             Inr (sd_target item
                  = \<lparr>st_pid = st_pid status_source, st_zone = CHARACTERS, st_id = get_id c\<rparr>))
      else Inl NotImplementedError)"

text \<open>\<^verbatim>\<open>FixedShieldStatus._preprocess\<close>; the conjunction of the source is evaluated
  from the left and stops at the first false conjunct.\<close>

definition FixedShieldStatus_preprocess_inner ::
  "shield_class \<Rightarrow> 'a usage_status_scheme \<Rightarrow> game_state \<Rightarrow> static_target \<Rightarrow> pevent
     \<Rightarrow> preprocessables \<Rightarrow> error + (pevent \<times> 'a usage_status_scheme option)" where
  "FixedShieldStatus_preprocess_inner cls self gs status_source item signal =
     (if signal = DMG_AMOUNT_MINUS then
        (case item of
           OtherPEvent _ \<Rightarrow> Inl AssertionError
         | DmgPEvent dmg \<Rightarrow>
             if sd_damage dmg > 0 \<and> usages self > 0 \<and> sd_element dmg \<noteq> PIERCING then
               (case is_target cls gs status_source dmg of
                  Inl e \<Rightarrow> Inl e
                | Inr t \<Rightarrow>
                    if t \<and> triggering_condition cls gs status_source dmg then
                      let new_dmg_amount = max 0 (sd_damage dmg - SHIELD_AMOUNT cls);
                          new_dmg = dmg\<lparr>sd_damage := new_dmg_amount\<rparr>;
                          new_item = DmgPEvent new_dmg;
                          new_usages = usages self - 1
                      in if AUTO_DESTROY cls \<and> new_usages = 0 then Inr (new_item, None)
                         else Inr (new_item, Some (self\<lparr>usages := new_usages\<rparr>))
                    else Inr (item, Some self))
             else Inr (item, Some self))
      else Inr (item, Some self))"

text \<open>\<^verbatim>\<open>Status.preprocess\<close> on a fixed shield: \<^verbatim>\<open>_preprocess\<close>, then the
  \<^verbatim>\<open>_post_preprocess\<close> of \<^verbatim>\<open>_UsageStatus\<close>.\<close>

definition FixedShieldStatus_preprocess ::
  "shield_class \<Rightarrow> 'a usage_status_scheme \<Rightarrow> game_state \<Rightarrow> static_target \<Rightarrow> pevent
     \<Rightarrow> preprocessables \<Rightarrow> error + (pevent \<times> 'a usage_status_scheme option)" where
  "FixedShieldStatus_preprocess cls self gs status_source item signal =
     (case FixedShieldStatus_preprocess_inner cls self gs status_source item signal of
        Inl e \<Rightarrow> Inl e
      | Inr (new_item, new_self) \<Rightarrow> Inr (UsageStatus_post_preprocess cls new_item new_self))"

text \<open>The ceiling of the exact quotient of two integers, the divisor not 0.\<close>

definition ceil_div :: "int \<Rightarrow> int \<Rightarrow> int" where
  "ceil_div a b = - ((- a) div b)"

text \<open>
  \<^verbatim>\<open>ceil(a / b)\<close> of two Python integers. Division by 0 raises. The quotient is a
  float, the exact quotient rounded to 53 bits: when both integers are below \<open>2^53\<close>
  in absolute value, a quotient that is no integer lies further from the next
  integer than the rounding moves it, so the ceiling of the float is the ceiling of
  the exact quotient. Beyond that range the float may be rounded across an integer,
  or the division may raise \<^verbatim>\<open>OverflowError\<close>: what \<^verbatim>\<open>ceil\<close> returns there is the
  parameter \<open>float_ceil\<close>.
\<close>

definition py_ceil_div :: "(int \<Rightarrow> int \<Rightarrow> error + int) \<Rightarrow> int \<Rightarrow> int \<Rightarrow> error + int" where
  "py_ceil_div float_ceil a b =
     (if b = 0 then Inl ZeroDivisionError
      else if \<bar>a\<bar> < 2 ^ 53 \<and> \<bar>b\<bar> < 2 ^ 53 then Inr (ceil_div a b)
      else float_ceil a b)"

text \<open>\<^verbatim>\<open>StackedShieldStatus._preprocess\<close>\<close>

definition StackedShieldStatus_preprocess_inner ::
  "(int \<Rightarrow> int \<Rightarrow> error + int) \<Rightarrow> shield_class \<Rightarrow> 'a usage_status_scheme \<Rightarrow> game_state
     \<Rightarrow> static_target \<Rightarrow> pevent \<Rightarrow> preprocessables
     \<Rightarrow> error + (pevent \<times> 'a usage_status_scheme option)" where
  "StackedShieldStatus_preprocess_inner float_ceil cls self gs status_source item signal =
     (if signal = DMG_AMOUNT_MINUS then
        (case item of
           OtherPEvent _ \<Rightarrow> Inl AssertionError
         | DmgPEvent dmg \<Rightarrow>
             if sd_damage dmg > 0 \<and> usages self > 0 \<and> sd_element dmg \<noteq> PIERCING then
               (case is_target cls gs status_source dmg of
                  Inl e \<Rightarrow> Inl e
                | Inr t \<Rightarrow>
                    if t then
                      (case py_ceil_div float_ceil (sd_damage dmg) (SHIELD_AMOUNT cls) of
                         Inl e \<Rightarrow> Inl e
                       | Inr quotient_ceil \<Rightarrow>
                           let usages_consumed = min quotient_ceil (usages self);
                               new_dmg_amount =
                                 max 0 (sd_damage dmg - usages_consumed * SHIELD_AMOUNT cls);
                               new_dmg = dmg\<lparr>sd_damage := new_dmg_amount\<rparr>;
                               new_item = DmgPEvent new_dmg;
                               new_usages = usages self - usages_consumed
                           in if new_usages = 0 then Inr (new_item, None)
                              else Inr (new_item, Some (self\<lparr>usages := new_usages\<rparr>)))
                    else Inr (item, Some self))
             else Inr (item, Some self))
      else Inr (item, Some self))"

text \<open>\<^verbatim>\<open>Status.preprocess\<close> on a stacked shield: \<^verbatim>\<open>_preprocess\<close>, then the
  \<^verbatim>\<open>_post_preprocess\<close> of \<^verbatim>\<open>_UsageStatus\<close>.\<close>

definition StackedShieldStatus_preprocess ::
  "(int \<Rightarrow> int \<Rightarrow> error + int) \<Rightarrow> shield_class \<Rightarrow> 'a usage_status_scheme \<Rightarrow> game_state
     \<Rightarrow> static_target \<Rightarrow> pevent \<Rightarrow> preprocessables
     \<Rightarrow> error + (pevent \<times> 'a usage_status_scheme option)" where
  "StackedShieldStatus_preprocess float_ceil cls self gs status_source item signal =
     (case StackedShieldStatus_preprocess_inner float_ceil cls self gs status_source item signal of
        Inl e \<Rightarrow> Inl e
      | Inr (new_item, new_self) \<Rightarrow> Inr (UsageStatus_post_preprocess cls new_item new_self))"

text \<open>\<^verbatim>\<open>class CrystallizeStatus(CombatStatus, StackedShieldStatus)\<close>: at most 2
  usages, 1 on creation; the shield amount and the auto-destroy flag are inherited.\<close>

definition CrystallizeStatus :: shield_class where
  "CrystallizeStatus =
     \<lparr>MAX_USAGES = 2, AUTO_DESTROY = True, family = CombatStatus, SHIELD_AMOUNT = 1,
      triggering_condition = (\<lambda>gs src dmg. True)\<rparr>"

text \<open>\<^verbatim>\<open>class StonehideStatus(CharacterStatus, FixedShieldStatus)\<close>\<close>

definition StonehideStatus :: shield_class where
  "StonehideStatus =
     \<lparr>MAX_USAGES = 3, AUTO_DESTROY = True, family = PersonalStatus, SHIELD_AMOUNT = 1,
      triggering_condition = (\<lambda>gs src dmg. True)\<rparr>"

subsection \<open>\<^verbatim>\<open>DendroCoreStatus\<close>\<close>

definition damage_boost :: int where
  "damage_boost = 2"

text \<open>\<^verbatim>\<open>DendroCoreStatus._preprocess\<close>; the class derives from \<^verbatim>\<open>CombatStatus\<close>
  alone, so \<^verbatim>\<open>Status.preprocess\<close> adds nothing to it.\<close>

definition DendroCoreStatus_preprocess ::
  "usage_status \<Rightarrow> game_state \<Rightarrow> static_target \<Rightarrow> pevent \<Rightarrow> preprocessables
     \<Rightarrow> error + (pevent \<times> usage_status option)" where
  "DendroCoreStatus_preprocess self gs status_source item signal =
     (if signal = DMG_AMOUNT_PLUS then
        (case item of
           OtherPEvent _ \<Rightarrow> Inl AssertionError
         | DmgPEvent dmg \<Rightarrow>
             if \<not> usages self \<ge> 1 then Inl AssertionError
             else
               let elem_can_boost = (sd_element dmg = ELECTRO \<or> sd_element dmg = PYRO);
                   legal_to_boost = (st_pid status_source = st_pid (sd_source dmg)
                                     \<and> can_boost (sd_damage_type dmg))
               in (case just_get_active_character (get_player gs (st_pid (sd_target dmg))) of
                     Inl e \<Rightarrow> Inl e
                   | Inr active \<Rightarrow>
                       let target_is_active = (st_id (sd_target dmg) = get_id active) in
                       if elem_can_boost \<and> legal_to_boost \<and> target_is_active then
                         let new_damage = dmg\<lparr>sd_damage := sd_damage dmg + damage_boost\<rparr>;
                             new_item = DmgPEvent new_damage
                         in if usages self = 1 then Inr (new_item, None)
                            else Inr (new_item, Some \<lparr>usages = usages self - 1\<rparr>)
                       else Inr (item, Some self)))
      else Inr (item, Some self))"

subsection \<open>\<^verbatim>\<open>RockPaperScissorsComboPaperStatus\<close>\<close>

text \<open>Modelled from the spec: the enumeration \<^verbatim>\<open>TriggeringSignal\<close>
  (\<^verbatim>\<open>effect/enums.py\<close>) is not among the sources; its members are the signals of
  section 4.5 of the specification.\<close>

datatype triggering_signal =
    ROUND_START | ROUND_END | END_ROUND_CHECK_OUT | PRE_ACTION | POST_ACTION | POST_DMG
  | POST_HEALING | POST_SKILL | ACT_PRE_SKILL | COMBAT_ACTION | SELF_SWAP | SWAP_EVENT_1
  | SWAP_EVENT_2 | POST_CARD | DEATH_EVENT | INIT_GAME_START | REVIVAL_GAME_START
  | SELF_DECLARE_END_ROUND | TRIGGER_REVIVAL | POST_ANY | DIRECT_TRIGGER | POST_STATUS_REMOVAL

text \<open>The classes of the two prepared statuses next to each other in the source;
  \<^verbatim>\<open>type(self)\<close> is one of them.\<close>

datatype status_type =
  RockPaperScissorsComboPaperStatus | RockPaperScissorsComboScissorsStatus

text \<open>Modelled from the spec: the effect classes (\<^verbatim>\<open>effect/effect.py\<close> of the later
  sources) are not among the sources; of the families of section 4.3, the effects
  that the status builds, with the arguments it gives them, and a numbered
  \<open>PostEffect\<close> for the effects of \<^verbatim>\<open>effect/effects_template.py\<close>.\<close>

datatype effect =
    RemoveCharacterStatusEffect static_target status_type
  | UpdateCharacterStatusEffect static_target status_type
  | ReferredDamageEffect static_target dynamic_character_target element int damage_type
  | SpecificDamageEffect specific_damage_effect
  | PostEffect nat

text \<open>\<^verbatim>\<open>RockPaperScissorsComboPaperStatus.DAMAGE\<close>\<close>

definition DAMAGE :: int where
  "DAMAGE = 3"

text \<open>\<^verbatim>\<open>RockPaperScissorsComboPaperStatus._react_to_signal\<close>; the status has no
  field, \<open>Some ()\<close> is the unchanged status and \<open>None\<close> its removal.\<close>

definition RockPaperScissorsComboPaperStatus_react_to_signal_inner ::
  "game_state \<Rightarrow> static_target \<Rightarrow> triggering_signal \<Rightarrow> effect list \<times> unit option" where
  "RockPaperScissorsComboPaperStatus_react_to_signal_inner gs source signal =
     (if signal = ACT_PRE_SKILL then
        ([RemoveCharacterStatusEffect source RockPaperScissorsComboPaperStatus,
          ReferredDamageEffect source OPPO_ACTIVE ELECTRO DAMAGE
            \<lparr>dt_elemental_skill = True, dt_elemental_burst = False, dt_status = True,
             dt_summon = False, dt_no_boost = False\<rparr>],
         Some ())
      else if signal = SELF_SWAP then ([], None)
      else ([], Some ()))"

fun is_damage_effect :: "effect \<Rightarrow> bool" where
  "is_damage_effect (ReferredDamageEffect _ _ _ _ _) = True"
| "is_damage_effect (SpecificDamageEffect _) = True"
| "is_damage_effect _ = False"

text \<open>
  \<^verbatim>\<open>Status.react_to_signal\<close> on this status, a \<^verbatim>\<open>PersonalStatus\<close>:
  \<^verbatim>\<open>_post_react_to_signal\<close> keeps a status equal to \<^verbatim>\<open>self\<close>; a removal request
  appends the removal effect; the unchanged status appends nothing;
  \<^verbatim>\<open>_post_update_react_to_signal\<close> is the identity; the post effects follow.
  \<^verbatim>\<open>standard_post_effects\<close> and \<^verbatim>\<open>budget_post_effect\<close>
  (\<^verbatim>\<open>effect/effects_template.py\<close>, not among the sources) are parameters.
\<close>

definition RockPaperScissorsComboPaperStatus_react_to_signal ::
  "(game_state \<Rightarrow> pid \<Rightarrow> bool \<Rightarrow> effect list) \<Rightarrow> (game_state \<Rightarrow> pid \<Rightarrow> bool \<Rightarrow> effect list)
     \<Rightarrow> game_state \<Rightarrow> static_target \<Rightarrow> triggering_signal \<Rightarrow> effect list" where
  "RockPaperScissorsComboPaperStatus_react_to_signal standard_post_effects budget_post_effect
       gs source signal =
     (let (es, new_status) = RockPaperScissorsComboPaperStatus_react_to_signal_inner gs source signal;
          es = (case new_status of
                  None \<Rightarrow> es @ [RemoveCharacterStatusEffect source RockPaperScissorsComboPaperStatus]
                | Some _ \<Rightarrow> es);
          has_damage = list_ex is_damage_effect es
      in if signal = POST_DMG \<or> signal = DIRECT_TRIGGER
         then es @ budget_post_effect gs (st_pid source) has_damage
         else es @ standard_post_effects gs (st_pid source) has_damage)"

section \<open>Example states\<close>

definition ex_char :: "int \<Rightarrow> int \<Rightarrow> int \<Rightarrow> character" where
  "ex_char i h e =
     \<lparr>get_id = i, get_hp = h, get_max_hp = 10, get_energy = e, get_max_energy = 3\<rparr>"

definition ex_player :: "character list \<Rightarrow> cards \<Rightarrow> cards \<Rightarrow> player_state" where
  "ex_player cs hand deck =
     \<lparr>get_phase = ACTION_PHASE,
      get_characters = \<lparr>get_characters_list = cs, get_active_character_id = Some 1\<rparr>,
      get_hand_cards = hand, get_deck_cards = deck, get_card_redraw_chances = 1\<rparr>"

text \<open>Two players of two characters each, the first of each active; the active
  character of the second player has 5 hp, that of the first 1 energy.\<close>

definition ex_game :: game_state where
  "ex_game =
     \<lparr>get_player1 = ex_player [ex_char 1 10 1, ex_char 2 10 0] [] [],
      get_player2 = ex_player [ex_char 1 5 0, ex_char 2 10 0] [] []\<rparr>"


definition ex_recharge :: "int \<Rightarrow> energy_recharge_effect" where
  "ex_recharge r =
     \<lparr>er_target = \<lparr>st_pid = P1, st_zone = CHARACTERS, st_id = 1\<rparr>, er_recharge = r\<rparr>"

text \<open>The active character of a player in \<open>ex_game\<close>, and the place of a player's
  combat statuses.\<close>

definition ex_active :: "pid \<Rightarrow> static_target" where
  "ex_active p = \<lparr>st_pid = p, st_zone = CHARACTERS, st_id = 1\<rparr>"

definition ex_combat :: "pid \<Rightarrow> static_target" where
  "ex_combat p = \<lparr>st_pid = p, st_zone = COMBAT_STATUSES, st_id = - 1\<rparr>"

definition ex_dmg :: "pid \<Rightarrow> pid \<Rightarrow> element \<Rightarrow> int \<Rightarrow> bool \<Rightarrow> specific_damage_effect" where
  "ex_dmg src tgt el d nb =
     \<lparr>sd_source = ex_active src, sd_target = ex_active tgt, sd_element = el, sd_damage = d,
      sd_damage_type = \<lparr>dt_elemental_skill = True, dt_elemental_burst = False,
                        dt_status = False, dt_summon = False, dt_no_boost = nb\<rparr>\<rparr>"

text \<open>A player with 5 cards in hand and 5 in the deck, who gives two cards of kind 2
  back.\<close>

definition ex_hand :: cards where
  "ex_hand = [(Card 1, 2), (Card 2, 3)]"

definition ex_deck :: cards where
  "ex_deck = [(Card 3, 4), (Card 1, 1)]"

definition ex_card_game :: game_state where
  "ex_card_game =
     \<lparr>get_player1 = ex_player [ex_char 1 10 0] ex_hand ex_deck,
      get_player2 = ex_player [ex_char 1 10 0] [] []\<rparr>"

definition ex_select :: card_select_action where
  "ex_select = \<lparr>selected_cards = [(Card 2, 2)]\<rparr>"

section \<open>Facts about characters and players\<close>

lemma find_get_id: "find (\<lambda>x. get_id x = i) xs = Some c \<Longrightarrow> get_id c = i"
  by (induction xs) (auto split: if_splits)

lemma find_replace_character:
  assumes "find (\<lambda>x. get_id x = i) xs = Some c" and "get_id c' = get_id c"
  shows "find (\<lambda>x. get_id x = i) (replace_character c' xs) = Some c'"
proof -
  have "get_id c' = i" using assms find_get_id by metis
  with assms(1) show ?thesis
    by (induction xs) (auto split: if_splits)
qed

lemma set_replace_character: "set (replace_character c xs) \<subseteq> insert c (set xs)"
  by (induction xs) auto

lemma length_replace_character: "length (replace_character c xs) = length xs"
  by (induction xs) auto

lemma nth_replace_character_other:
  "i < length xs \<Longrightarrow> get_id (xs ! i) \<noteq> get_id c \<Longrightarrow> replace_character c xs ! i = xs ! i"
  by (induction xs arbitrary: i) (auto simp: nth_Cons split: nat.splits)

lemma get_character_factory_character:
  "get_character cs i = Some c \<Longrightarrow> get_id c' = get_id c \<Longrightarrow>
   get_character (factory_character cs c') i = Some c'"
  by (simp add: get_character_def factory_character_def find_replace_character)


lemma get_player_factory_player:
  "get_player (factory_player gs p pl) q = (if q = p then pl else get_player gs q)"
  by (cases p; cases q) auto

lemma other_pid_neq: "other_pid p \<noteq> p"
  by (cases p) auto

section \<open>Damage\<close>




section \<open>Energy recharge\<close>

lemma energy_inv_iff:
  "energy_inv gs \<longleftrightarrow>
     (\<forall>c \<in> set (all_characters gs). 0 \<le> get_energy c \<and> get_energy c \<le> get_max_energy c)"
  by (simp add: energy_inv_def list_all_iff)

lemma get_target_Some_mem:
  "get_target gs t = Some c \<Longrightarrow> c \<in> set (all_characters gs)"
  by (cases "st_pid t")
     (auto simp: get_target_def get_character_def all_characters_def find_Some_iff
           split: if_splits)

lemma all_characters_factory_player:
  "set (all_characters (factory_player gs p
          ((get_player gs p)\<lparr>get_characters := factory_character (get_characters (get_player gs p)) c\<rparr>)))
     \<subseteq> insert c (set (all_characters gs))"
  using set_replace_character[of c]
  by (cases p) (auto simp: all_characters_def factory_character_def)

lemma EnergyRechargeEffect_execute_unfold:
  "get_target gs (er_target eff) = Some c \<Longrightarrow>
   EnergyRechargeEffect_execute eff gs =
     (if min (get_energy c + er_recharge eff) (get_max_energy c) = get_energy c then gs
      else factory_player gs (st_pid (er_target eff))
             ((get_player gs (st_pid (er_target eff)))
                \<lparr>get_characters := factory_character
                    (get_characters (get_player gs (st_pid (er_target eff))))
                    (c\<lparr>get_energy := min (get_energy c + er_recharge eff) (get_max_energy c)\<rparr>)\<rparr>))"
  by (simp add: EnergyRechargeEffect_execute_def Let_def)

lemma EnergyRechargeEffect_execute_inv:
  assumes "energy_inv gs" and "0 \<le> er_recharge eff"
  shows "energy_inv (EnergyRechargeEffect_execute eff gs)"
proof (cases "get_target gs (er_target eff)")
  case None
  then show ?thesis using assms by (simp add: EnergyRechargeEffect_execute_def)
next
  case (Some c)
  let ?e = "min (get_energy c + er_recharge eff) (get_max_energy c)"
  have c: "0 \<le> get_energy c" "get_energy c \<le> get_max_energy c"
    using assms(1) get_target_Some_mem[OF Some] by (auto simp: energy_inv_iff)
  have e: "0 \<le> ?e" "?e \<le> get_max_energy c"
    using c assms(2) by auto
  show ?thesis
  proof (cases "?e = get_energy c")
    case True
    then show ?thesis using assms Some by (simp add: EnergyRechargeEffect_execute_unfold)
  next
    case False
    have "\<forall>x \<in> set (all_characters (EnergyRechargeEffect_execute eff gs)).
            0 \<le> get_energy x \<and> get_energy x \<le> get_max_energy x"
    proof
      fix x assume "x \<in> set (all_characters (EnergyRechargeEffect_execute eff gs))"
      then have "x = c\<lparr>get_energy := ?e\<rparr> \<or> x \<in> set (all_characters gs)"
        using all_characters_factory_player[of gs "st_pid (er_target eff)" "c\<lparr>get_energy := ?e\<rparr>"]
          False Some
        by (auto simp: EnergyRechargeEffect_execute_unfold)
      then show "0 \<le> get_energy x \<and> get_energy x \<le> get_max_energy x"
        using e assms(1) by (auto simp: energy_inv_iff)
    qed
    then show ?thesis by (simp add: energy_inv_iff)
  qed
qed

lemma get_target_execute:
  assumes "get_target gs (er_target eff) = Some c"
  shows "get_target (EnergyRechargeEffect_execute eff gs) (er_target eff)
           = Some (c\<lparr>get_energy := min (get_energy c + er_recharge eff) (get_max_energy c)\<rparr>)"
proof (cases "min (get_energy c + er_recharge eff) (get_max_energy c) = get_energy c")
  case True
  then show ?thesis using assms by (simp add: EnergyRechargeEffect_execute_unfold)
next
  case False
  have z: "st_zone (er_target eff) = CHARACTERS"
    and g: "get_character (get_characters (get_player gs (st_pid (er_target eff)))) (st_id (er_target eff)) = Some c"
    using assms by (auto simp: get_target_def split: if_splits)
  show ?thesis
    using False assms z get_character_factory_character[OF g, of "c\<lparr>get_energy := min (get_energy c + er_recharge eff) (get_max_energy c)\<rparr>"]
    by (simp add: EnergyRechargeEffect_execute_unfold get_target_def get_player_factory_player)
qed

lemma execute_other_characters:
  assumes "i < length (get_characters_list (get_characters (get_player gs p)))"
    and "p \<noteq> st_pid (er_target eff)
         \<or> get_id (get_characters_list (get_characters (get_player gs p)) ! i) \<noteq> st_id (er_target eff)"
  shows "get_characters_list (get_characters (get_player (EnergyRechargeEffect_execute eff gs) p)) ! i
         = get_characters_list (get_characters (get_player gs p)) ! i"
proof (cases "get_target gs (er_target eff)")
  case None
  then show ?thesis by (simp add: EnergyRechargeEffect_execute_def)
next
  case (Some c)
  have id: "get_id c = st_id (er_target eff)"
    using Some find_get_id by (auto simp: get_target_def get_character_def split: if_splits)
  show ?thesis
    using assms id nth_replace_character_other
    by (auto simp: EnergyRechargeEffect_execute_unfold[OF Some] get_player_factory_player
        factory_character_def)
qed

lemma execute_shape:
  "length (get_characters_list (get_characters (get_player (EnergyRechargeEffect_execute eff gs) p)))
     = length (get_characters_list (get_characters (get_player gs p)))"
  by (cases "get_target gs (er_target eff)")
     (auto simp: EnergyRechargeEffect_execute_def Let_def get_player_factory_player
        factory_character_def length_replace_character)

text \<open>
  C8 (as amended). From a state in which every character's energy lies in
  \<open>[0, max_energy]\<close>, \<^verbatim>\<open>EnergyRechargeEffect.execute\<close> with a recharge that is not
  negative returns a state in which it does so again. And for every state and every
  recharge: a target that names no character leaves the state as it is; a target
  character's energy becomes \<open>min (energy + recharge) max_energy\<close> and its other
  fields stay; when that is its energy already the state is returned as it is; and
  every character of the other player, and every character of the same player with
  another id, is as before, at its place in a list of the same length.
\<close>

theorem EnergyRechargeEffect_execute_energy:
  "(energy_inv gs \<and> 0 \<le> er_recharge eff \<longrightarrow> energy_inv (EnergyRechargeEffect_execute eff gs))
    \<and> (get_target gs (er_target eff) = None \<longrightarrow> EnergyRechargeEffect_execute eff gs = gs)
    \<and> (\<forall>c. get_target gs (er_target eff) = Some c \<longrightarrow>
          get_target (EnergyRechargeEffect_execute eff gs) (er_target eff)
            = Some (c\<lparr>get_energy := min (get_energy c + er_recharge eff) (get_max_energy c)\<rparr>)
          \<and> (min (get_energy c + er_recharge eff) (get_max_energy c) = get_energy c
                \<longrightarrow> EnergyRechargeEffect_execute eff gs = gs))
    \<and> (\<forall>p. length (get_characters_list (get_characters (get_player (EnergyRechargeEffect_execute eff gs) p)))
             = length (get_characters_list (get_characters (get_player gs p))))
    \<and> (\<forall>p i. i < length (get_characters_list (get_characters (get_player gs p)))
          \<and> (p \<noteq> st_pid (er_target eff)
               \<or> get_id (get_characters_list (get_characters (get_player gs p)) ! i) \<noteq> st_id (er_target eff))
          \<longrightarrow> get_characters_list (get_characters (get_player (EnergyRechargeEffect_execute eff gs) p)) ! i
               = get_characters_list (get_characters (get_player gs p)) ! i)"
proof (intro conjI allI impI)
  assume "energy_inv gs \<and> 0 \<le> er_recharge eff"
  then show "energy_inv (EnergyRechargeEffect_execute eff gs)"
    using EnergyRechargeEffect_execute_inv by blast
next
  assume "get_target gs (er_target eff) = None"
  then show "EnergyRechargeEffect_execute eff gs = gs"
    by (simp add: EnergyRechargeEffect_execute_def)
next
  fix c assume "get_target gs (er_target eff) = Some c"
  then show "get_target (EnergyRechargeEffect_execute eff gs) (er_target eff)
            = Some (c\<lparr>get_energy := min (get_energy c + er_recharge eff) (get_max_energy c)\<rparr>)"
    by (rule get_target_execute)
next
  fix c
  assume "get_target gs (er_target eff) = Some c"
    and "min (get_energy c + er_recharge eff) (get_max_energy c) = get_energy c"
  then show "EnergyRechargeEffect_execute eff gs = gs"
    by (simp add: EnergyRechargeEffect_execute_unfold)
next
  fix p
  show "length (get_characters_list (get_characters (get_player (EnergyRechargeEffect_execute eff gs) p)))
             = length (get_characters_list (get_characters (get_player gs p)))"
    by (rule execute_shape)
next
  fix p i
  assume "i < length (get_characters_list (get_characters (get_player gs p)))
          \<and> (p \<noteq> st_pid (er_target eff)
               \<or> get_id (get_characters_list (get_characters (get_player gs p)) ! i) \<noteq> st_id (er_target eff))"
  then show "get_characters_list (get_characters (get_player (EnergyRechargeEffect_execute eff gs) p)) ! i
               = get_characters_list (get_characters (get_player gs p)) ! i"
    using execute_other_characters by blast
qed

theorem EnergyRechargeEffect_execute_energy_witness:
  "energy_inv ex_game \<and> 0 \<le> er_recharge (ex_recharge 5)
   \<and> energy_inv (EnergyRechargeEffect_execute (ex_recharge 5) ex_game)
   \<and> get_target (EnergyRechargeEffect_execute (ex_recharge 5) ex_game) (er_target (ex_recharge 5))
       = Some (ex_char 1 10 3)
   \<and> get_player2 (EnergyRechargeEffect_execute (ex_recharge 5) ex_game) = get_player2 ex_game
   \<and> get_target ex_game (er_target (ex_recharge (- 2))) = Some (ex_char 1 10 1)
   \<and> get_target (EnergyRechargeEffect_execute (ex_recharge (- 2)) ex_game) (er_target (ex_recharge (- 2)))
       = Some (ex_char 1 10 (- 1))
   \<and> get_player2 (EnergyRechargeEffect_execute (ex_recharge (- 2)) ex_game) = get_player2 ex_game
   \<and> EnergyRechargeEffect_execute (ex_recharge 0) ex_game = ex_game"
  using EnergyRechargeEffect_execute_energy [of ex_game "ex_recharge 5"]
        EnergyRechargeEffect_execute_energy [of ex_game "ex_recharge (- 2)"]
        EnergyRechargeEffect_execute_energy [of ex_game "ex_recharge 0"]
  by (simp add: ex_recharge_def ex_char_def ex_player_def ex_game_def get_character_def
      factory_character_def energy_inv_def all_characters_def EnergyRechargeEffect_execute_def
      get_target_def)

text \<open>
  Against C8 as stated: a recharge of -2 on a character of energy 1 leaves energy -1,
  outside \<open>[0, max_energy]\<close>, from a state in which the invariant held.
\<close>

theorem EnergyRechargeEffect_execute_counterexample:
  "energy_inv ex_game
   \<and> \<not> energy_inv (EnergyRechargeEffect_execute (ex_recharge (- 2)) ex_game)
   \<and> map_option get_energy
        (get_target (EnergyRechargeEffect_execute (ex_recharge (- 2)) ex_game) (er_target (ex_recharge (- 2))))
       = Some (- 1)"
  by (simp add: ex_recharge_def ex_char_def ex_player_def ex_game_def get_character_def
      factory_character_def energy_inv_def all_characters_def EnergyRechargeEffect_execute_def
      get_target_def)

section \<open>Usage statuses\<close>

text \<open>
  C3 (as amended). For a \<^verbatim>\<open>_UsageStatus\<close> \<open>s\<close> and an incoming status \<open>other\<close> of the
  same class, \<^verbatim>\<open>_update\<close> yields \<open>other\<close> with usages
  \<open>min (s.usages + other.usages) (max s.usages other.usages MAX_USAGES)\<close>; this is
  \<open>min (s.usages + other.usages) MAX_USAGES\<close> whenever neither status holds more than
  \<open>MAX_USAGES\<close>. \<^verbatim>\<open>update\<close> then returns \<open>None\<close> if the resulting usages are at most
  0 and \<open>AUTO_DESTROY\<close> is set; it returns the merged status if its usages are
  positive, and the merged status with usages 0 if they are not and \<open>AUTO_DESTROY\<close> is
  not set.
\<close>

theorem UsageStatus_update_usages:
  "UsageStatus_update_inner cls s other
     = Some (other\<lparr>usages := min (usages s + usages other)
                                  (max (usages s) (max (usages other) (MAX_USAGES cls)))\<rparr>)
   \<and> (usages s \<le> MAX_USAGES cls \<and> usages other \<le> MAX_USAGES cls \<longrightarrow>
        UsageStatus_update_inner cls s other
          = Some (other\<lparr>usages := min (usages s + usages other) (MAX_USAGES cls)\<rparr>))
   \<and> (\<forall>n. UsageStatus_update_inner cls s other = Some n \<and> usages n \<le> 0 \<and> AUTO_DESTROY cls
          \<longrightarrow> UsageStatus_update cls s other = None)
   \<and> (\<forall>n. UsageStatus_update_inner cls s other = Some n \<and> 0 < usages n
          \<longrightarrow> UsageStatus_update cls s other = Some n)
   \<and> (\<forall>n. UsageStatus_update_inner cls s other = Some n \<and> usages n \<le> 0 \<and> \<not> AUTO_DESTROY cls
          \<longrightarrow> UsageStatus_update cls s other = Some (n\<lparr>usages := 0\<rparr>))"
  by (auto simp: UsageStatus_update_inner_def UsageStatus_update_def UsageStatus_post_update_def
      Let_def max_def min_def)

theorem UsageStatus_update_usages_witness:
  "usages \<lparr>usages = 1\<rparr> \<le> MAX_USAGES CrystallizeStatus
   \<and> usages \<lparr>usages = 2\<rparr> \<le> MAX_USAGES CrystallizeStatus
   \<and> UsageStatus_update CrystallizeStatus \<lparr>usages = 1\<rparr> \<lparr>usages = 2\<rparr> = Some \<lparr>usages = 2\<rparr>
   \<and> AUTO_DESTROY CrystallizeStatus
   \<and> UsageStatus_update CrystallizeStatus \<lparr>usages = 1\<rparr> \<lparr>usages = - 1\<rparr> = None
   \<and> \<not> AUTO_DESTROY UsageLivingStatus
   \<and> UsageStatus_update UsageLivingStatus \<lparr>usages = 1\<rparr> \<lparr>usages = - 3\<rparr> = Some \<lparr>usages = 0\<rparr>"
  using UsageStatus_update_usages [of CrystallizeStatus "\<lparr>usages = 1\<rparr>" "\<lparr>usages = 2\<rparr>"]
        UsageStatus_update_usages [of CrystallizeStatus "\<lparr>usages = 1\<rparr>" "\<lparr>usages = - 1\<rparr>"]
        UsageStatus_update_usages [of UsageLivingStatus "\<lparr>usages = 1\<rparr>" "\<lparr>usages = - 3\<rparr>"]
  by (simp add: CrystallizeStatus_def UsageLivingStatus_def BIG_INT_def UsageStatus_update_inner_def)

text \<open>
  Against C3 as stated: a Crystallize status (\<open>MAX_USAGES = 2\<close>) that holds 3 usages
  and is updated with one of 1 usage keeps 3 usages, where the claim gives
  \<open>min (3 + 1) 2 = 2\<close>.
\<close>

theorem UsageStatus_update_counterexample:
  "UsageStatus_update CrystallizeStatus \<lparr>usages = 3\<rparr> \<lparr>usages = 1\<rparr> = Some \<lparr>usages = 3\<rparr>
   \<and> min (usages \<lparr>usages = 3\<rparr> + usages \<lparr>usages = 1\<rparr>) (MAX_USAGES CrystallizeStatus) = 2"
  by (simp add: CrystallizeStatus_def UsageStatus_update_inner_def UsageStatus_update_def
      UsageStatus_post_update_def)

section \<open>Shields\<close>

lemma ceil_div_ceiling:
  "b \<noteq> 0 \<Longrightarrow> ceil_div a b = \<lceil>real_of_int a / real_of_int b\<rceil>"
  by (simp add: ceil_div_def ceiling_divide_eq_div)

text \<open>
  C6. A \<^verbatim>\<open>FixedShieldStatus\<close> with usages above 0 preprocesses, under
  \<open>DMG_AMOUNT_MINUS\<close>, a damage of positive amount \<open>d\<close> whose element is not
  \<open>PIERCING\<close>, that targets the shield's owner and meets the triggering condition:
  the damage becomes \<open>max 0 (d - SHIELD_AMOUNT)\<close> and the usages drop by exactly one,
  whatever \<open>d\<close> is; the status is removed when that leaves 0 usages and
  \<open>AUTO_DESTROY\<close> is set.
\<close>

theorem FixedShieldStatus_preprocess_hit:
  assumes "sd_damage dmg > 0" and "usages self > 0" and "sd_element dmg \<noteq> PIERCING"
    and "is_target cls gs status_source dmg = Inr True"
    and "triggering_condition cls gs status_source dmg"
  shows "FixedShieldStatus_preprocess cls self gs status_source (DmgPEvent dmg) DMG_AMOUNT_MINUS
     = Inr (DmgPEvent (dmg\<lparr>sd_damage := max 0 (sd_damage dmg - SHIELD_AMOUNT cls)\<rparr>),
            if AUTO_DESTROY cls \<and> usages self = 1 then None
            else Some (self\<lparr>usages := usages self - 1\<rparr>))"
  using assms
  by (simp add: FixedShieldStatus_preprocess_def FixedShieldStatus_preprocess_inner_def
      UsageStatus_post_preprocess_def Let_def)

theorem FixedShieldStatus_preprocess_hit_witness:
  "sd_damage (ex_dmg P2 P1 PYRO 5 False) > 0 \<and> usages \<lparr>usages = 3\<rparr> > 0
   \<and> sd_element (ex_dmg P2 P1 PYRO 5 False) \<noteq> PIERCING
   \<and> is_target StonehideStatus ex_game (ex_active P1) (ex_dmg P2 P1 PYRO 5 False) = Inr True
   \<and> triggering_condition StonehideStatus ex_game (ex_active P1) (ex_dmg P2 P1 PYRO 5 False)
   \<and> FixedShieldStatus_preprocess StonehideStatus \<lparr>usages = 3\<rparr> ex_game (ex_active P1)
        (DmgPEvent (ex_dmg P2 P1 PYRO 5 False)) DMG_AMOUNT_MINUS
       = Inr (DmgPEvent (ex_dmg P2 P1 PYRO 4 False), Some \<lparr>usages = 2\<rparr>)
   \<and> FixedShieldStatus_preprocess StonehideStatus \<lparr>usages = 1\<rparr> ex_game (ex_active P1)
        (DmgPEvent (ex_dmg P2 P1 PYRO 5 False)) DMG_AMOUNT_MINUS
       = Inr (DmgPEvent (ex_dmg P2 P1 PYRO 4 False), None)"
  using FixedShieldStatus_preprocess_hit
          [of "ex_dmg P2 P1 PYRO 5 False" "\<lparr>usages = 3\<rparr>" StonehideStatus ex_game "ex_active P1"]
        FixedShieldStatus_preprocess_hit
          [of "ex_dmg P2 P1 PYRO 5 False" "\<lparr>usages = 1\<rparr>" StonehideStatus ex_game "ex_active P1"]
  by (simp add: StonehideStatus_def is_target_def ex_active_def ex_combat_def ex_dmg_def ex_game_def ex_player_def ex_char_def
      just_get_active_character_def get_active_character_def get_character_def)

text \<open>
  C2. A \<^verbatim>\<open>StackedShieldStatus\<close> with \<open>u > 0\<close> usages preprocesses, under
  \<open>DMG_AMOUNT_MINUS\<close>, a damage of positive amount \<open>d\<close> whose element is not
  \<open>PIERCING\<close> and that targets the shield's owner: it consumes
  \<open>min (ceil (d / SHIELD_AMOUNT)) u\<close> stacks, the damage becomes
  \<open>max 0 (d - consumed * SHIELD_AMOUNT)\<close>, and the status is removed exactly when all
  \<open>u\<close> stacks are consumed. Here \<open>SHIELD_AMOUNT\<close> is not 0, so that the quotient is
  defined, and \<open>d\<close> and \<open>SHIELD_AMOUNT\<close> are below \<open>2^53\<close>, where the ceiling of the
  float quotient is the ceiling of the quotient, whatever \<^verbatim>\<open>ceil\<close> returns beyond.
  In particular a Crystallize shield of 2 stacks hit by 3 Anemo damage absorbs 2,
  lets 1 through and is removed.
\<close>

theorem StackedShieldStatus_preprocess_hit:
  assumes "sd_damage dmg > 0" and "usages self > 0" and "sd_element dmg \<noteq> PIERCING"
    and "is_target cls gs status_source dmg = Inr True"
    and "SHIELD_AMOUNT cls \<noteq> 0"
    and "sd_damage dmg < 2 ^ 53" and "\<bar>SHIELD_AMOUNT cls\<bar> < 2 ^ 53"
  shows "let consumed = min \<lceil>real_of_int (sd_damage dmg) / real_of_int (SHIELD_AMOUNT cls)\<rceil>
                            (usages self)
     in StackedShieldStatus_preprocess float_ceil cls self gs status_source (DmgPEvent dmg)
          DMG_AMOUNT_MINUS
       = Inr (DmgPEvent (dmg\<lparr>sd_damage := max 0 (sd_damage dmg - consumed * SHIELD_AMOUNT cls)\<rparr>),
              if consumed = usages self then None
              else Some (self\<lparr>usages := usages self - consumed\<rparr>))"
proof -
  define c where "c = min (ceil_div (sd_damage dmg) (SHIELD_AMOUNT cls)) (usages self)"
  have c2: "c \<le> usages self" by (simp add: c_def)
  have eq: "c = min \<lceil>real_of_int (sd_damage dmg) / real_of_int (SHIELD_AMOUNT cls)\<rceil> (usages self)"
    using assms(5) by (simp add: c_def ceil_div_ceiling)
  have q: "py_ceil_div float_ceil (sd_damage dmg) (SHIELD_AMOUNT cls)
             = Inr (ceil_div (sd_damage dmg) (SHIELD_AMOUNT cls))"
    using assms(1,5,6,7) by (simp add: py_ceil_div_def)
  have inner: "StackedShieldStatus_preprocess_inner float_ceil cls self gs status_source
                 (DmgPEvent dmg) DMG_AMOUNT_MINUS
     = Inr (DmgPEvent (dmg\<lparr>sd_damage := max 0 (sd_damage dmg - c * SHIELD_AMOUNT cls)\<rparr>),
            if usages self - c = 0 then None
            else Some (self\<lparr>usages := usages self - c\<rparr>))"
    using assms(1-4)
    by (simp add: StackedShieldStatus_preprocess_inner_def q Let_def c_def[symmetric])
  have "StackedShieldStatus_preprocess float_ceil cls self gs status_source (DmgPEvent dmg)
          DMG_AMOUNT_MINUS
     = Inr (DmgPEvent (dmg\<lparr>sd_damage := max 0 (sd_damage dmg - c * SHIELD_AMOUNT cls)\<rparr>),
            if c = usages self then None
            else Some (self\<lparr>usages := usages self - c\<rparr>))"
  proof (cases "c = usages self")
    case True
    then show ?thesis
      by (simp add: StackedShieldStatus_preprocess_def inner UsageStatus_post_preprocess_def)
  next
    case False
    then have "0 < usages self - c" using c2 by simp
    then show ?thesis using False
      by (simp add: StackedShieldStatus_preprocess_def inner UsageStatus_post_preprocess_def)
  qed
  then show ?thesis unfolding eq by (simp add: Let_def)
qed

theorem StackedShieldStatus_preprocess_hit_witness:
  "sd_damage (ex_dmg P2 P1 ANEMO 3 False) > 0 \<and> usages \<lparr>usages = 2\<rparr> > 0
   \<and> sd_element (ex_dmg P2 P1 ANEMO 3 False) \<noteq> PIERCING
   \<and> is_target CrystallizeStatus ex_game (ex_combat P1) (ex_dmg P2 P1 ANEMO 3 False) = Inr True
   \<and> SHIELD_AMOUNT CrystallizeStatus \<noteq> 0
   \<and> sd_damage (ex_dmg P2 P1 ANEMO 3 False) < 2 ^ 53
   \<and> \<bar>SHIELD_AMOUNT CrystallizeStatus\<bar> < 2 ^ 53
   \<and> StackedShieldStatus_preprocess (\<lambda>a b. Inl OverflowError) CrystallizeStatus \<lparr>usages = 2\<rparr>
        ex_game (ex_combat P1) (DmgPEvent (ex_dmg P2 P1 ANEMO 3 False)) DMG_AMOUNT_MINUS
       = Inr (DmgPEvent (ex_dmg P2 P1 ANEMO 1 False), None)
   \<and> StackedShieldStatus_preprocess (\<lambda>a b. Inl OverflowError) CrystallizeStatus \<lparr>usages = 2\<rparr>
        ex_game (ex_combat P1) (DmgPEvent (ex_dmg P2 P1 ANEMO 1 False)) DMG_AMOUNT_MINUS
       = Inr (DmgPEvent (ex_dmg P2 P1 ANEMO 0 False), Some \<lparr>usages = 1\<rparr>)"
  using StackedShieldStatus_preprocess_hit
          [of "ex_dmg P2 P1 ANEMO 3 False" "\<lparr>usages = 2\<rparr>" CrystallizeStatus ex_game "ex_combat P1"
              "\<lambda>a b. Inl OverflowError"]
        StackedShieldStatus_preprocess_hit
          [of "ex_dmg P2 P1 ANEMO 1 False" "\<lparr>usages = 2\<rparr>" CrystallizeStatus ex_game "ex_combat P1"
              "\<lambda>a b. Inl OverflowError"]
  by (simp add: CrystallizeStatus_def is_target_def ex_active_def ex_combat_def ex_dmg_def
      ex_game_def ex_player_def ex_char_def just_get_active_character_def
      get_active_character_def get_character_def)

section \<open>Dendro core\<close>

text \<open>
  C5 (as amended). A \<^verbatim>\<open>DendroCoreStatus\<close> with at least 1 usage preprocesses a damage
  whose targeted player has an active character. Under \<open>DMG_AMOUNT_PLUS\<close>: if the
  element is Pyro or Electro, the source belongs to the status's side, the damage
  type can be boosted, and the target is the opposing player's active character,
  then exactly 2 is added to the damage and the status is removed when its usages
  are 1 (else it loses one usage). A damage of another element, from the other side,
  of a type that cannot be boosted, or whose target id is not the id of the targeted
  player's active character passes through as it is, and so does the status. Under
  any other signal every event passes through as it is.
\<close>

theorem DendroCoreStatus_preprocess_boost:
  assumes "usages self \<ge> 1"
    and "just_get_active_character (get_player gs (st_pid (sd_target dmg))) = Inr active"
  shows "((sd_element dmg = PYRO \<or> sd_element dmg = ELECTRO)
          \<and> st_pid (sd_source dmg) = st_pid status_source
          \<and> can_boost (sd_damage_type dmg)
          \<and> sd_target dmg = \<lparr>st_pid = other_pid (st_pid status_source), st_zone = CHARACTERS,
                               st_id = get_id active\<rparr>
        \<longrightarrow> DendroCoreStatus_preprocess self gs status_source (DmgPEvent dmg) DMG_AMOUNT_PLUS
            = Inr (DmgPEvent (dmg\<lparr>sd_damage := sd_damage dmg + 2\<rparr>),
                   if usages self = 1 then None else Some \<lparr>usages = usages self - 1\<rparr>))
     \<and> (\<not> (sd_element dmg = PYRO \<or> sd_element dmg = ELECTRO)
          \<or> st_pid (sd_source dmg) \<noteq> st_pid status_source
          \<or> \<not> can_boost (sd_damage_type dmg)
          \<or> st_id (sd_target dmg) \<noteq> get_id active
        \<longrightarrow> DendroCoreStatus_preprocess self gs status_source (DmgPEvent dmg) DMG_AMOUNT_PLUS
            = Inr (DmgPEvent dmg, Some self))
     \<and> (\<forall>item signal. signal \<noteq> DMG_AMOUNT_PLUS
        \<longrightarrow> DendroCoreStatus_preprocess self gs status_source item signal = Inr (item, Some self))"
  using assms
  by (auto simp: DendroCoreStatus_preprocess_def Let_def damage_boost_def)

theorem DendroCoreStatus_preprocess_boost_witness:
  "usages \<lparr>usages = 1\<rparr> \<ge> 1
   \<and> just_get_active_character (get_player ex_game (st_pid (sd_target (ex_dmg P1 P2 ELECTRO 2 False))))
       = Inr (ex_char 1 5 0)
   \<and> DendroCoreStatus_preprocess \<lparr>usages = 1\<rparr> ex_game (ex_combat P1)
         (DmgPEvent (ex_dmg P1 P2 ELECTRO 2 False)) DMG_AMOUNT_PLUS
       = Inr (DmgPEvent (ex_dmg P1 P2 ELECTRO 4 False), None)
   \<and> DendroCoreStatus_preprocess \<lparr>usages = 1\<rparr> ex_game (ex_combat P1)
         (DmgPEvent (ex_dmg P1 P2 HYDRO 2 False)) DMG_AMOUNT_PLUS
       = Inr (DmgPEvent (ex_dmg P1 P2 HYDRO 2 False), Some \<lparr>usages = 1\<rparr>)"
  using DendroCoreStatus_preprocess_boost
          [of "\<lparr>usages = 1\<rparr>" ex_game "ex_dmg P1 P2 ELECTRO 2 False" "ex_char 1 5 0" "ex_combat P1"]
        DendroCoreStatus_preprocess_boost
          [of "\<lparr>usages = 1\<rparr>" ex_game "ex_dmg P1 P2 HYDRO 2 False" "ex_char 1 5 0" "ex_combat P1"]
  by (simp add: ex_active_def ex_combat_def ex_dmg_def ex_game_def ex_player_def ex_char_def
      just_get_active_character_def get_active_character_def get_character_def can_boost_def)

text \<open>
  Against C5 as stated: 2 Electro damage from the status's own side to the opposing
  active character, of a damage type flagged \<^verbatim>\<open>no_boost\<close>, passes through at 2 and the
  status stays; and 2 Electro damage from the status's own side to that side's own
  active character, not the opposing one, is raised to 4 and the status is removed.
\<close>

theorem DendroCoreStatus_preprocess_counterexample:
  "DendroCoreStatus_preprocess \<lparr>usages = 1\<rparr> ex_game (ex_combat P1)
         (DmgPEvent (ex_dmg P1 P2 ELECTRO 2 True)) DMG_AMOUNT_PLUS
       = Inr (DmgPEvent (ex_dmg P1 P2 ELECTRO 2 True), Some \<lparr>usages = 1\<rparr>)
   \<and> DendroCoreStatus_preprocess \<lparr>usages = 1\<rparr> ex_game (ex_combat P1)
         (DmgPEvent (ex_dmg P1 P1 ELECTRO 2 False)) DMG_AMOUNT_PLUS
       = Inr (DmgPEvent (ex_dmg P1 P1 ELECTRO 4 False), None)"
  by (simp add: DendroCoreStatus_preprocess_def ex_active_def ex_combat_def ex_dmg_def ex_game_def ex_player_def ex_char_def
      just_get_active_character_def get_active_character_def get_character_def can_boost_def damage_boost_def)

section \<open>Prepared skills\<close>

text \<open>
  C7. \<^verbatim>\<open>RockPaperScissorsComboPaperStatus\<close> reacting to \<open>SELF_SWAP\<close> asks for its
  removal and builds no effect, so the effects of \<^verbatim>\<open>react_to_signal\<close> are the
  removal of the status and the post effects of a reaction without damage. Reacting
  to \<open>ACT_PRE_SKILL\<close> it builds the removal of itself followed by a damage effect of
  3 Electro aimed at the opposing active character, and the post effects of a
  reaction with damage follow these two.
\<close>

theorem RockPaperScissorsComboPaperStatus_reacts:
  "RockPaperScissorsComboPaperStatus_react_to_signal_inner gs source SELF_SWAP = ([], None)
   \<and> RockPaperScissorsComboPaperStatus_react_to_signal post budget gs source SELF_SWAP
       = RemoveCharacterStatusEffect source RockPaperScissorsComboPaperStatus
         # post gs (st_pid source) False
   \<and> RockPaperScissorsComboPaperStatus_react_to_signal_inner gs source ACT_PRE_SKILL
       = ([RemoveCharacterStatusEffect source RockPaperScissorsComboPaperStatus,
           ReferredDamageEffect source OPPO_ACTIVE ELECTRO 3
             \<lparr>dt_elemental_skill = True, dt_elemental_burst = False, dt_status = True,
              dt_summon = False, dt_no_boost = False\<rparr>],
          Some ())
   \<and> RockPaperScissorsComboPaperStatus_react_to_signal post budget gs source ACT_PRE_SKILL
       = [RemoveCharacterStatusEffect source RockPaperScissorsComboPaperStatus,
          ReferredDamageEffect source OPPO_ACTIVE ELECTRO 3
            \<lparr>dt_elemental_skill = True, dt_elemental_burst = False, dt_status = True,
             dt_summon = False, dt_no_boost = False\<rparr>]
         @ post gs (st_pid source) True"
  by (simp add: RockPaperScissorsComboPaperStatus_react_to_signal_inner_def
      RockPaperScissorsComboPaperStatus_react_to_signal_def DAMAGE_def)

section \<open>Cards as dictionaries\<close>

lemma cards_get_notin: "k \<notin> fst ` set c \<Longrightarrow> cards_get c k = 0"
  by (simp add: cards_get_def map_of_eq_None_iff[THEN iffD2])

lemma set_dict_keys_union: "set (dict_keys_union a b) = fst ` set a \<union> fst ` set b"
  by (simp add: dict_keys_union_def)

lemma distinct_dict_keys_union: "distinct (dict_keys_union a b)"
  by (simp add: dict_keys_union_def)

lemma cards_get_tabulate:
  "cards_get (map (\<lambda>k. (k, f k)) ks) k = (if k \<in> set ks then f k else 0)"
  by (simp add: cards_get_def map_of_map_restrict restrict_map_def)

lemma cards_get_add: "cards_get (cards_add a b) k = cards_get a k + cards_get b k"
  by (auto simp: cards_add_def cards_get_tabulate set_dict_keys_union cards_get_notin)

lemma cards_get_sub: "cards_get (cards_sub a b) k = cards_get a k - cards_get b k"
  by (auto simp: cards_sub_def cards_get_tabulate set_dict_keys_union cards_get_notin)

lemma dict_ok_tabulate: "distinct ks \<Longrightarrow> dict_ok (map (\<lambda>k. (k, f k)) ks)"
  by (simp add: dict_ok_def comp_def)

lemma dict_ok_add: "dict_ok (cards_add a b)"
  by (simp add: cards_add_def dict_ok_tabulate distinct_dict_keys_union)

lemma dict_ok_sub: "dict_ok (cards_sub a b)"
  by (simp add: cards_sub_def dict_ok_tabulate distinct_dict_keys_union)

lemma num_cards_tabulate:
  "distinct ks \<Longrightarrow> num_cards (map (\<lambda>k. (k, f k)) ks) = sum f (set ks)"
  by (simp add: num_cards_def comp_def sum_list_distinct_conv_sum_set)

lemma num_cards_keys:
  "dict_ok c \<Longrightarrow> num_cards c = sum (cards_get c) (fst ` set c)"
proof (induction c)
  case Nil
  then show ?case by (simp add: num_cards_def)
next
  case (Cons kv c)
  obtain k v where kv: "kv = (k, v)" by (cases kv)
  from Cons.prems have k: "k \<notin> fst ` set c" and ok: "dict_ok c"
    by (auto simp: dict_ok_def kv)
  have same: "\<And>x. x \<in> fst ` set c \<Longrightarrow> cards_get (kv # c) x = cards_get c x"
    using k by (auto simp: cards_get_def kv)
  have "sum (cards_get (kv # c)) (fst ` set (kv # c))
        = cards_get (kv # c) k + sum (cards_get (kv # c)) (fst ` set c)"
    using k by (simp add: kv)
  also have "\<dots> = v + sum (cards_get c) (fst ` set c)"
    using same by (simp add: cards_get_def kv)
  finally show ?case using Cons.IH[OF ok] by (simp add: num_cards_def kv)
qed

lemma num_cards_superset:
  assumes "dict_ok c" and "finite S" and "fst ` set c \<subseteq> S"
  shows "num_cards c = sum (cards_get c) S"
proof -
  have "sum (cards_get c) (fst ` set c) = sum (cards_get c) S"
    using assms(2,3) by (intro sum.mono_neutral_left) (auto simp: cards_get_notin)
  then show ?thesis using num_cards_keys[OF assms(1)] by simp
qed

lemma num_cards_add:
  assumes "dict_ok a" and "dict_ok b"
  shows "num_cards (cards_add a b) = num_cards a + num_cards b"
proof -
  let ?S = "set (dict_keys_union a b)"
  have "num_cards (cards_add a b) = (\<Sum>k\<in>?S. cards_get a k + cards_get b k)"
    by (simp add: cards_add_def num_cards_tabulate distinct_dict_keys_union)
  also have "\<dots> = sum (cards_get a) ?S + sum (cards_get b) ?S"
    by (simp add: sum.distrib)
  also have "\<dots> = num_cards a + num_cards b"
    using num_cards_superset[OF assms(1), of ?S] num_cards_superset[OF assms(2), of ?S]
    by (simp add: set_dict_keys_union)
  finally show ?thesis .
qed

lemma num_cards_sub:
  assumes "dict_ok a" and "dict_ok b"
  shows "num_cards (cards_sub a b) = num_cards a - num_cards b"
proof -
  let ?S = "set (dict_keys_union a b)"
  have "num_cards (cards_sub a b) = (\<Sum>k\<in>?S. cards_get a k - cards_get b k)"
    by (simp add: cards_sub_def num_cards_tabulate distinct_dict_keys_union)
  also have "\<dots> = sum (cards_get a) ?S - sum (cards_get b) ?S"
    by (simp add: sum_subtractf)
  also have "\<dots> = num_cards a - num_cards b"
    using num_cards_superset[OF assms(1), of ?S] num_cards_superset[OF assms(2), of ?S]
    by (simp add: set_dict_keys_union)
  finally show ?thesis .
qed

lemma is_legal_get:
  assumes "is_legal c" shows "0 \<le> cards_get c k"
proof (cases "map_of c k")
  case None
  then show ?thesis by (simp add: cards_get_def)
next
  case (Some v)
  then have "(k, v) \<in> set c" by (rule map_of_SomeD)
  then have "0 \<le> v" using assms by (auto simp: is_legal_def list_all_iff)
  then show ?thesis using Some by (simp add: cards_get_def)
qed

lemma is_legal_tabulate: "(\<And>k. k \<in> set ks \<Longrightarrow> 0 \<le> f k) \<Longrightarrow> is_legal (map (\<lambda>k. (k, f k)) ks)"
  by (auto simp: is_legal_def list_all_iff)

lemma is_legal_add: "(\<And>k. 0 \<le> cards_get a k + cards_get b k) \<Longrightarrow> is_legal (cards_add a b)"
  by (simp add: cards_add_def is_legal_tabulate)

lemma is_legal_sub: "(\<And>k. 0 \<le> cards_get a k - cards_get b k) \<Longrightarrow> is_legal (cards_sub a b)"
  by (simp add: cards_sub_def is_legal_tabulate)

lemma cards_get_counter: "cards_get (counter xs) k = int (count_list xs k)"
  by (auto simp: counter_def cards_get_tabulate count_list_0_iff)

lemma dict_ok_counter: "dict_ok (counter xs)"
  by (simp add: counter_def dict_ok_tabulate)

lemma num_cards_counter: "num_cards (counter xs) = int (length xs)"
proof -
  have "num_cards (counter xs) = (\<Sum>k\<in>set xs. int (count_list xs k))"
    by (simp add: counter_def num_cards_tabulate)
  also have "\<dots> = int (\<Sum>k\<in>set xs. count_list xs k)" by simp
  also have "\<dots> = int (length xs)" by (simp add: sum_count_set)
  finally show ?thesis .
qed


lemma count_list_replicate_eq:
  "count_list (replicate n x) y = (if x = y then n else 0)"
  by (induction n) auto

lemma length_remove_nth:
  "j < length xs \<Longrightarrow> length (take j xs @ drop (Suc j) xs) = length xs - 1"
  by simp

lemma count_list_population:
  "dict_ok c \<Longrightarrow> is_legal c \<Longrightarrow> int (count_list (population c) k) = cards_get c k"
proof (induction c)
  case Nil
  then show ?case by (simp add: population_def cards_get_def)
next
  case (Cons kv c)
  obtain k' v where kv: "kv = (k', v)" by (cases kv)
  from Cons.prems have k': "k' \<notin> fst ` set c" and ok: "dict_ok c" and leg: "is_legal c" and v: "0 \<le> v"
    by (auto simp: dict_ok_def is_legal_def kv)
  have pop: "count_list (population (kv # c)) k
             = count_list (replicate (nat v) k') k + count_list (population c) k"
    by (simp add: population_def kv)
  show ?case
  proof (cases "k = k'")
    case True
    then have "cards_get c k = 0" using k' by (simp add: cards_get_notin)
    then have "count_list (population c) k = 0" using Cons.IH[OF ok leg] by simp
    moreover have "cards_get (kv # c) k = v" using True by (simp add: cards_get_def kv)
    moreover have "count_list (replicate (nat v) k') k = nat v"
      using True by (simp add: count_list_replicate_eq)
    ultimately show ?thesis using v pop by simp
  next
    case False
    then have "count_list (replicate (nat v) k') k = 0" by (simp add: count_list_replicate_eq)
    moreover have "cards_get (kv # c) k = cards_get c k"
      using False by (simp add: cards_get_def kv)
    ultimately show ?thesis using Cons.IH[OF ok leg] pop by simp
  qed
qed

lemma length_population: "is_legal c \<Longrightarrow> int (length (population c)) = num_cards c"
proof (induction c)
  case Nil
  then show ?case by (simp add: population_def num_cards_def)
next
  case (Cons kv c)
  then have "0 \<le> snd kv" and "is_legal c" by (auto simp: is_legal_def)
  then show ?case using Cons.IH by (simp add: population_def num_cards_def)
qed

lemma mset_remove_nth:
  "j < length xs \<Longrightarrow> mset (take j xs @ drop (Suc j) xs) = mset xs - {#xs ! j#}"
  by (metis add_mset_remove_trivial append_take_drop_id mset.simps(2) mset_append
      Cons_nth_drop_Suc union_mset_add_mset_right)

lemma draw_length: "n \<le> length pop \<Longrightarrow> length (draw pop n rs) = n"
proof (induction pop n rs rule: draw.induct)
  case (3 x pop n rs)
  let ?j = "(case rs of [] \<Rightarrow> 0 | r # _ \<Rightarrow> r) mod length (x # pop)"
  have j: "?j < length (x # pop)" by simp
  have "length (take ?j (x # pop) @ drop (Suc ?j) (x # pop)) = length pop"
    using length_remove_nth[OF j] by simp
  then show ?case using "3.IH"[of ?j] "3.prems" by (simp add: Let_def del: length_append)
qed simp_all

lemma draw_mset: "mset (draw pop n rs) \<subseteq># mset pop"
proof (induction pop n rs rule: draw.induct)
  case (3 x pop n rs)
  let ?xs = "x # pop"
  let ?j = "(case rs of [] \<Rightarrow> 0 | r # _ \<Rightarrow> r) mod length ?xs"
  have j: "?j < length ?xs" by simp
  have rest: "mset (take ?j ?xs @ drop (Suc ?j) ?xs) = mset ?xs - {#?xs ! ?j#}"
    using mset_remove_nth[OF j] .
  have mem: "?xs ! ?j \<in># mset ?xs" using j by (metis nth_mem_mset)
  have "mset (draw ?xs (Suc n) rs)
        = add_mset (?xs ! ?j) (mset (draw (take ?j ?xs @ drop (Suc ?j) ?xs) n (tl rs)))"
    by (simp add: Let_def)
  also have "\<dots> \<subseteq># add_mset (?xs ! ?j) (mset ?xs - {#?xs ! ?j#})"
    using "3.IH"[of ?j] rest by (simp del: mset.simps)
  also have "\<dots> = mset ?xs" using mem by (simp del: mset.simps)
  finally show ?case .
qed simp_all


lemma num_cards_nonneg: "is_legal c \<Longrightarrow> 0 \<le> num_cards c"
  by (auto simp: is_legal_def num_cards_def list_all_iff intro!: sum_list_nonneg)

lemma selected_from_get:
  assumes "selected_from sel hand" and "is_legal hand"
  shows "0 \<le> cards_get sel k \<and> cards_get sel k \<le> cards_get hand k"
proof (cases "map_of sel k")
  case None
  then show ?thesis using is_legal_get[OF assms(2)] by (simp add: cards_get_def)
next
  case (Some v)
  then have "(k, v) \<in> set sel" by (rule map_of_SomeD)
  then have "0 \<le> v \<and> v \<le> cards_get hand k"
    using assms(1) by (auto simp: selected_from_def is_legal_def list_all_iff)
  then show ?thesis using Some by (simp add: cards_get_def)
qed

lemma num_cards_pointwise_sub:
  assumes "dict_ok l" and "dict_ok a" and "dict_ok b"
    and "\<And>k. cards_get l k = cards_get a k - cards_get b k"
  shows "num_cards l = num_cards a - num_cards b"
proof -
  define S where "S = fst ` set l \<union> fst ` set a \<union> fst ` set b"
  have fin: "finite S" and sub: "fst ` set l \<subseteq> S" "fst ` set a \<subseteq> S" "fst ` set b \<subseteq> S"
    by (auto simp: S_def)
  have "num_cards l = sum (cards_get l) S"
    using assms(1) fin sub(1) by (rule num_cards_superset)
  also have "\<dots> = sum (cards_get a) S - sum (cards_get b) S"
    by (simp add: assms(4) sum_subtractf)
  also have "sum (cards_get a) S = num_cards a"
    using num_cards_superset[OF assms(2) fin sub(2)] by simp
  also have "sum (cards_get b) S = num_cards b"
    using num_cards_superset[OF assms(3) fin sub(3)] by simp
  finally show ?thesis .
qed

lemma pick_random_ok:
  assumes "dict_ok c" and "is_legal c" and "0 \<le> num" and "num \<le> num_cards c"
  shows "\<exists>left picked. pick_random c num rs = Inr (left, picked)
           \<and> dict_ok left \<and> dict_ok picked \<and> num_cards picked = num
           \<and> (\<forall>k. 0 \<le> cards_get picked k \<and> cards_get picked k \<le> cards_get c k)
           \<and> (\<forall>k. cards_get left k = cards_get c k - cards_get picked k)"
proof (cases "num = 0")
  case True
  then have "pick_random c num rs = Inr (c, from_empty)"
    using assms(4) by (simp add: pick_random_def)
  moreover have "dict_ok from_empty" "num_cards from_empty = 0" "\<And>k. cards_get from_empty k = 0"
    by (simp_all add: from_empty_def dict_ok_def num_cards_def cards_get_def)
  ultimately show ?thesis using True assms(1) is_legal_get[OF assms(2)] by simp
next
  case False
  let ?d = "draw (population c) (nat num) rs"
  have len: "nat num \<le> length (population c)"
    using length_population[OF assms(2)] assms(3,4) by linarith
  have s: "sample (population c) num rs = Inr ?d"
    using length_population[OF assms(2)] assms(3,4) by (simp add: sample_def)
  have pr: "pick_random c num rs = Inr (cards_sub c (counter ?d), counter ?d)"
    using False assms(4) s by (simp add: pick_random_def Let_def min_def)
  have n: "num_cards (counter ?d) = num"
    using draw_length[OF len] assms(3) by (simp add: num_cards_counter)
  have le: "cards_get (counter ?d) k \<le> cards_get c k" for k
  proof -
    have "count (mset ?d) k \<le> count (mset (population c)) k"
      using draw_mset[of "population c" "nat num" rs] by (rule mset_subset_eq_count)
    then have "int (count_list ?d k) \<le> int (count_list (population c) k)"
      by (simp add: count_mset)
    then show ?thesis
      using count_list_population[OF assms(1,2)] by (simp add: cards_get_counter)
  qed
  show ?thesis
    using pr n le by (simp add: dict_ok_sub dict_ok_counter cards_get_sub cards_get_counter)
qed

text \<open>
  C10. A \<^verbatim>\<open>Cards\<close> container that holds at least one \<^verbatim>\<open>OmniCard\<close> contains every
  card kind, also one whose count is 0. Removing a kind whose count is positive
  takes one card of that kind; removing a kind whose count is not positive takes
  one \<^verbatim>\<open>OmniCard\<close> instead when there is one. So removing a kind the container
  contains always succeeds; removing one it does not contain fails the assertion.
\<close>

theorem Cards_contains_remove:
  "(0 < cards_get c OmniCard \<longrightarrow> contains c k)
   \<and> (0 < cards_get c k \<longrightarrow>
        (\<exists>c'. remove c k = Inr c'
           \<and> (\<forall>j. cards_get c' j = (if j = k then cards_get c j - 1 else cards_get c j))))
   \<and> (cards_get c k \<le> 0 \<and> 0 < cards_get c OmniCard \<longrightarrow>
        (\<exists>c'. remove c k = Inr c'
           \<and> (\<forall>j. cards_get c' j = (if j = OmniCard then cards_get c j - 1 else cards_get c j))))
   \<and> (contains c k \<longrightarrow> (\<exists>c'. remove c k = Inr c'))
   \<and> (\<not> contains c k \<longrightarrow> remove c k = Inl AssertionError)"
  by (auto simp: contains_def remove_def cards_get_sub) (auto simp: cards_get_def)

theorem Cards_contains_remove_witness:
  "0 < cards_get [(OmniCard, 2)] OmniCard \<and> cards_get [(OmniCard, 2)] (Card 7) \<le> 0
   \<and> contains [(OmniCard, 2)] (Card 7)
   \<and> remove [(OmniCard, 2)] (Card 7) = Inr [(OmniCard, 1)]
   \<and> 0 < cards_get [(Card 7, 1), (OmniCard, 2)] (Card 7)
   \<and> remove [(Card 7, 1), (OmniCard, 2)] (Card 7) = Inr [(OmniCard, 2), (Card 7, 0)]"
  using Cards_contains_remove [of "[(OmniCard, 2)]" "Card 7"]
        Cards_contains_remove [of "[(Card 7, 1), (OmniCard, 2)]" "Card 7"]
  by (simp add: contains_def remove_def cards_get_def cards_sub_def dict_keys_union_def)

section \<open>Redrawing cards\<close>

text \<open>
  C4. A player handles a \<^verbatim>\<open>CardSelectAction\<close> whose selected cards are drawn from
  the hand, the deck holding at least as many cards as are selected (hand, deck and
  selection being dictionaries of unique keys, hand and deck without negative
  counts). Whatever the random source, the action succeeds: as many cards as were
  selected are drawn from the deck into the hand, and the selected cards go from the
  hand into the deck. The hand keeps its size, the deck keeps its size, the count of
  every kind over hand and deck together is as before, no count is negative, and the
  other player is untouched.
\<close>

theorem handle_card_drawing_redraw:
  assumes "dict_ok (get_hand_cards (get_player gs p))"
    and "is_legal (get_hand_cards (get_player gs p))"
    and "dict_ok (get_deck_cards (get_player gs p))"
    and "is_legal (get_deck_cards (get_player gs p))"
    and "dict_ok (selected_cards action)"
    and "selected_from (selected_cards action) (get_hand_cards (get_player gs p))"
    and "num_cards (selected_cards action) \<le> num_cards (get_deck_cards (get_player gs p))"
  shows "\<exists>gs' drawn. handle_card_drawing gs p action rs = Inr gs'
      \<and> num_cards drawn = num_cards (selected_cards action)
      \<and> (\<forall>k. 0 \<le> cards_get drawn k
             \<and> cards_get drawn k \<le> cards_get (get_deck_cards (get_player gs p)) k
             \<and> cards_get (get_hand_cards (get_player gs' p)) k
                 = cards_get (get_hand_cards (get_player gs p)) k
                   - cards_get (selected_cards action) k + cards_get drawn k
             \<and> cards_get (get_deck_cards (get_player gs' p)) k
                 = cards_get (get_deck_cards (get_player gs p)) k
                   - cards_get drawn k + cards_get (selected_cards action) k
             \<and> cards_get (get_hand_cards (get_player gs' p)) k
                 + cards_get (get_deck_cards (get_player gs' p)) k
                 = cards_get (get_hand_cards (get_player gs p)) k
                   + cards_get (get_deck_cards (get_player gs p)) k)
      \<and> num_cards (get_hand_cards (get_player gs' p)) = num_cards (get_hand_cards (get_player gs p))
      \<and> num_cards (get_deck_cards (get_player gs' p)) = num_cards (get_deck_cards (get_player gs p))
      \<and> is_legal (get_hand_cards (get_player gs' p)) \<and> is_legal (get_deck_cards (get_player gs' p))
      \<and> get_other_player gs' p = get_other_player gs p"
proof -
  let ?pl = "get_player gs p"
  let ?hand = "get_hand_cards ?pl" and ?deck = "get_deck_cards ?pl" and ?sel = "selected_cards action"
  have sel: "0 \<le> cards_get ?sel k \<and> cards_get ?sel k \<le> cards_get ?hand k" for k
    using selected_from_get[OF assms(6) assms(2)] .
  have n0: "0 \<le> num_cards ?sel"
    using assms(6) by (simp add: selected_from_def num_cards_nonneg)
  obtain left drawn where pr: "pick_random ?deck (num_cards ?sel) rs = Inr (left, drawn)"
    and ok: "dict_ok left" "dict_ok drawn" and n: "num_cards drawn = num_cards ?sel"
    and dr: "\<And>k. 0 \<le> cards_get drawn k \<and> cards_get drawn k \<le> cards_get ?deck k"
    and lf: "\<And>k. cards_get left k = cards_get ?deck k - cards_get drawn k"
    using pick_random_ok[OF assms(3) assms(4) n0 assms(7), of rs] by blast
  let ?deck' = "cards_add left ?sel"
  let ?hand' = "cards_add (cards_sub ?hand ?sel) drawn"
  define gs' where "gs' = factory_player gs p
      (?pl\<lparr>get_phase := (if get_card_redraw_chances ?pl - 1 > 0 then get_phase ?pl else END_PHASE),
           get_card_redraw_chances := get_card_redraw_chances ?pl - 1,
           get_deck_cards := ?deck', get_hand_cards := ?hand'\<rparr>)"
  have run: "handle_card_drawing gs p action rs = Inr gs'"
    using pr by (simp add: handle_card_drawing_def Let_def gs'_def)
  have h: "get_hand_cards (get_player gs' p) = ?hand'"
    and d: "get_deck_cards (get_player gs' p) = ?deck'"
    and o: "get_other_player gs' p = get_other_player gs p"
    using other_pid_neq[of p]
    by (simp_all add: gs'_def get_player_factory_player get_other_player_def)
  have nleft: "num_cards left = num_cards ?deck - num_cards drawn"
    using num_cards_pointwise_sub[OF ok(1) assms(3) ok(2)] lf by simp
  have nh: "num_cards ?hand' = num_cards ?hand"
    using n by (simp add: num_cards_add num_cards_sub dict_ok_sub ok assms(1,5))
  have nd: "num_cards ?deck' = num_cards ?deck"
    using n nleft by (simp add: num_cards_add ok assms(5))
  have lh: "is_legal ?hand'"
    using sel dr by (intro is_legal_add) (simp add: cards_get_sub add_nonneg_nonneg)
  have ld: "is_legal ?deck'"
    using sel dr by (intro is_legal_add) (simp add: lf add_nonneg_nonneg)
  show ?thesis
    using run n dr nh nd lh ld o
    by (intro exI[of _ gs'] exI[of _ drawn]) (simp add: h d cards_get_add cards_get_sub lf)
qed

lemma ex_card_run:
  "handle_card_drawing ex_card_game P1 ex_select [4, 0]
     = Inr \<lparr>get_player1 =
              \<lparr>get_phase = END_PHASE,
               get_characters = \<lparr>get_characters_list = [ex_char 1 10 0], get_active_character_id = Some 1\<rparr>,
               get_hand_cards = [(Card 2, 1), (Card 1, 3), (Card 3, 1)],
               get_deck_cards = [(Card 1, 0), (Card 3, 3), (Card 2, 2)],
               get_card_redraw_chances = 0\<rparr>,
            get_player2 = ex_player [ex_char 1 10 0] [] []\<rparr>"
  by code_simp

theorem handle_card_drawing_redraw_witness:
  "dict_ok (get_hand_cards (get_player ex_card_game P1))
   \<and> is_legal (get_hand_cards (get_player ex_card_game P1))
   \<and> dict_ok (get_deck_cards (get_player ex_card_game P1))
   \<and> is_legal (get_deck_cards (get_player ex_card_game P1))
   \<and> dict_ok (selected_cards ex_select)
   \<and> selected_from (selected_cards ex_select) (get_hand_cards (get_player ex_card_game P1))
   \<and> num_cards (selected_cards ex_select) \<le> num_cards (get_deck_cards (get_player ex_card_game P1))
   \<and> (\<exists>gs'. handle_card_drawing ex_card_game P1 ex_select [4, 0] = Inr gs'
         \<and> get_hand_cards (get_player gs' P1) = [(Card 2, 1), (Card 1, 3), (Card 3, 1)]
         \<and> get_deck_cards (get_player gs' P1) = [(Card 1, 0), (Card 3, 3), (Card 2, 2)]
         \<and> num_cards (get_hand_cards (get_player gs' P1)) = 5
         \<and> num_cards (get_deck_cards (get_player gs' P1)) = 5)"
proof -
  have h: "dict_ok (get_hand_cards (get_player ex_card_game P1))"
    "is_legal (get_hand_cards (get_player ex_card_game P1))"
    "dict_ok (get_deck_cards (get_player ex_card_game P1))"
    "is_legal (get_deck_cards (get_player ex_card_game P1))"
    "dict_ok (selected_cards ex_select)"
    "selected_from (selected_cards ex_select) (get_hand_cards (get_player ex_card_game P1))"
    "num_cards (selected_cards ex_select) \<le> num_cards (get_deck_cards (get_player ex_card_game P1))"
    by (simp_all add: ex_card_game_def ex_select_def ex_player_def ex_hand_def ex_deck_def
        dict_ok_def is_legal_def selected_from_def num_cards_def cards_get_def)
  have n: "num_cards (get_hand_cards (get_player ex_card_game P1)) = 5"
    "num_cards (get_deck_cards (get_player ex_card_game P1)) = 5"
    by (simp_all add: ex_card_game_def ex_player_def ex_hand_def ex_deck_def num_cards_def)
  obtain gs' where g: "handle_card_drawing ex_card_game P1 ex_select [4, 0] = Inr gs'"
    and "num_cards (get_hand_cards (get_player gs' P1)) = num_cards (get_hand_cards (get_player ex_card_game P1))"
    and "num_cards (get_deck_cards (get_player gs' P1)) = num_cards (get_deck_cards (get_player ex_card_game P1))"
    using handle_card_drawing_redraw[OF h, of "[4, 0]"] by blast
  then show ?thesis using h n ex_card_run by auto
qed

section \<open>Paying dice\<close>

text \<open>
  C9. If a payment exactly satisfies a requirement and is contained in the pool,
  then taking the payment from the pool and adding it back gives the pool again, and
  so every function of the pool, its hash among them, gives the same value on both.
\<close>

theorem dices_payment_roundtrip:
  assumes "just_satisfy payment requirement" and "payment \<subseteq># pool"
  shows "dices_add (dices_sub pool payment) payment = pool
         \<and> (\<forall>h. h (dices_add (dices_sub pool payment) payment) = h pool)"
  using assms(2) by (simp add: dices_add_def dices_sub_def)

theorem dices_payment_roundtrip_witness:
  "just_satisfy {#PYRO, OMNI#} {#PYRO, PYRO#} \<and> {#PYRO, OMNI#} \<subseteq># {#PYRO, PYRO, OMNI, GEO#}
   \<and> dices_sub {#PYRO, PYRO, OMNI, GEO#} {#PYRO, OMNI#} = {#PYRO, GEO#}
   \<and> dices_add (dices_sub {#PYRO, PYRO, OMNI, GEO#} {#PYRO, OMNI#}) {#PYRO, OMNI#}
       = {#PYRO, PYRO, OMNI, GEO#}"
  using dices_payment_roundtrip [of "{#PYRO, OMNI#}" "{#PYRO, PYRO#}" "{#PYRO, PYRO, OMNI, GEO#}"]
  by (simp add: just_satisfy_def pure_elems_def num_dices_def dices_add_def dices_sub_def)

end
